theory Spec2Isabelle
  imports Complex_Main "HOL-Library.Word"
begin

section \<open>Numbers and vectors\<close>

text \<open>
  The program computes with C++ \<^verbatim>\<open>float\<close> (binary32) and with \<^verbatim>\<open>glm::vec3\<close>. A float
  is modelled as a real number or the value \<open>NaN\<close>, which stands for every value that is not
  a finite number: the machine's not-a-number and its two infinities, which the model does not
  tell apart (under \<open>+\<close>, \<open>-\<close>, \<open>*\<close> and the square root an infinity stays an infinity or
  becomes not-a-number). An operation with a \<open>NaN\<close> operand gives \<open>NaN\<close>.

  Sums, differences and products of numbers are exact: they are not rounded, and they are
  numbers even where the machine's result would be an infinity. The theorems below on the
  integration of a body, on the two ends of a spring and on motion in the plane bound the
  numbers in their hypotheses, so that no sum or product formed leaves the range of a float.
  Where the program calls \<^verbatim>\<open>powf\<close>, takes a square root or an inverse square root, a
  result outside the range is modelled, by \<open>FLT_OVERFLOW\<close> and \<open>FLT_UNDERFLOW\<close>. The
  program never compares two floats.
\<close>

datatype float = Finite real | NaN

instantiation float :: "{zero, one, plus, minus, uminus, times, inverse}"
begin

definition zero_float :: float where
  "zero_float = Finite 0"

definition one_float :: float where
  "one_float = Finite 1"

definition plus_float :: "float \<Rightarrow> float \<Rightarrow> float" where
  "plus_float a b = (case a of Finite u \<Rightarrow> (case b of Finite v \<Rightarrow> Finite (u + v) | NaN \<Rightarrow> NaN) | NaN \<Rightarrow> NaN)"

definition minus_float :: "float \<Rightarrow> float \<Rightarrow> float" where
  "minus_float a b = (case a of Finite u \<Rightarrow> (case b of Finite v \<Rightarrow> Finite (u - v) | NaN \<Rightarrow> NaN) | NaN \<Rightarrow> NaN)"

definition uminus_float :: "float \<Rightarrow> float" where
  "uminus_float a = (case a of Finite u \<Rightarrow> Finite (- u) | NaN \<Rightarrow> NaN)"

definition times_float :: "float \<Rightarrow> float \<Rightarrow> float" where
  "times_float a b = (case a of Finite u \<Rightarrow> (case b of Finite v \<Rightarrow> Finite (u * v) | NaN \<Rightarrow> NaN) | NaN \<Rightarrow> NaN)"

text \<open>Division by zero has no number as its result (the machine gives an infinity or
  not-a-number).\<close>

definition divide_float :: "float \<Rightarrow> float \<Rightarrow> float" where
  "divide_float a b = (case a of Finite u \<Rightarrow>
     (case b of Finite v \<Rightarrow> (if v = 0 then NaN else Finite (u / v)) | NaN \<Rightarrow> NaN) | NaN \<Rightarrow> NaN)"

definition inverse_float :: "float \<Rightarrow> float" where
  "inverse_float a = (case a of Finite v \<Rightarrow> (if v = 0 then NaN else Finite (1 / v)) | NaN \<Rightarrow> NaN)"

instance ..

end

text \<open>The range of binary32. A result of magnitude \<open>(2 - 2\<^sup>-\<^sup>2\<^sup>4) * 2\<^sup>1\<^sup>2\<^sup>7\<close> or more rounds
  to an infinity (the largest float, \<^verbatim>\<open>FLT_MAX\<close>, is \<open>(2 - 2\<^sup>-\<^sup>2\<^sup>3) * 2\<^sup>1\<^sup>2\<^sup>7\<close>); a result of
  magnitude below \<open>2\<^sup>-\<^sup>1\<^sup>5\<^sup>0\<close>, half the least positive float, rounds to zero.\<close>

definition FLT_OVERFLOW :: real where
  "FLT_OVERFLOW = (2 - 1 / 2 ^ 24) * 2 ^ 127"

definition FLT_UNDERFLOW :: real where
  "FLT_UNDERFLOW = 1 / 2 ^ 150"

text \<open>\<^verbatim>\<open>sqrt\<close> and \<^verbatim>\<open>glm::inversesqrt\<close>, which the program applies to the dot product of a
  displacement with itself. The argument is the dot product as the model has it, exact; as a
  float it is an infinity from \<open>FLT_OVERFLOW\<close> on and zero below \<open>FLT_UNDERFLOW\<close>. The
  square root of an infinity is an infinity and its inverse square root is zero; the inverse
  square root of zero is an infinity. For an argument \<open>NaN\<close> both give \<open>NaN\<close> (were it an
  infinity, the machine's inverse square root would be zero: in \<open>spring_force\<close> below the
  other factor of the product is then not a finite number, and neither is the product).\<close>

definition fsqrt :: "float \<Rightarrow> float" where
  "fsqrt a = (case a of
       Finite u \<Rightarrow> (if u < 0 then NaN
                    else if u < FLT_UNDERFLOW then Finite 0
                    else if FLT_OVERFLOW \<le> u then NaN
                    else Finite (sqrt u))
     | NaN \<Rightarrow> NaN)"

definition inversesqrt :: "float \<Rightarrow> float" where
  "inversesqrt a = (case a of
       Finite u \<Rightarrow> (if u < FLT_UNDERFLOW then NaN
                    else if FLT_OVERFLOW \<le> u then Finite 0
                    else Finite (1 / sqrt u))
     | NaN \<Rightarrow> NaN)"

text \<open>\<^verbatim>\<open>powf(dt, 2)\<close>, the only call of \<^verbatim>\<open>powf\<close> in the program: the square, an infinity
  from \<open>FLT_OVERFLOW\<close> on.\<close>

definition powf_2 :: "float \<Rightarrow> float" where
  "powf_2 a = (case a of
       Finite u \<Rightarrow> (if FLT_OVERFLOW \<le> u * u then NaN else Finite (u * u))
     | NaN \<Rightarrow> NaN)"

text \<open>Conversion of an \<^verbatim>\<open>int\<close> to \<^verbatim>\<open>float\<close>.\<close>

definition float_of_int :: "int \<Rightarrow> float" where
  "float_of_int n = Finite (real_of_int n)"

datatype vec3 = Vec3 (vx: float) (vy: float) (vz: float)

text \<open>\<^verbatim>\<open>glm::vec3(s)\<close> with one argument sets every component to it.\<close>

definition vec3_all :: "float \<Rightarrow> vec3" where
  "vec3_all s = Vec3 s s s"

instantiation vec3 :: "{zero, plus, minus, uminus}"
begin

definition zero_vec3 :: vec3 where
  "zero_vec3 = Vec3 0 0 0"

definition plus_vec3 :: "vec3 \<Rightarrow> vec3 \<Rightarrow> vec3" where
  "plus_vec3 a b = Vec3 (vx a + vx b) (vy a + vy b) (vz a + vz b)"

definition minus_vec3 :: "vec3 \<Rightarrow> vec3 \<Rightarrow> vec3" where
  "minus_vec3 a b = Vec3 (vx a - vx b) (vy a - vy b) (vz a - vz b)"

definition uminus_vec3 :: "vec3 \<Rightarrow> vec3" where
  "uminus_vec3 a = Vec3 (- vx a) (- vy a) (- vz a)"

instance ..

end

text \<open>\<^verbatim>\<open>float * vec3\<close> and \<^verbatim>\<open>vec3 * float\<close>.\<close>

definition scale :: "float \<Rightarrow> vec3 \<Rightarrow> vec3" where
  "scale s v = Vec3 (s * vx v) (s * vy v) (s * vz v)"

definition scale_r :: "vec3 \<Rightarrow> float \<Rightarrow> vec3" where
  "scale_r v s = Vec3 (vx v * s) (vy v * s) (vz v * s)"

text \<open>\<^verbatim>\<open>glm::dot\<close>, \<^verbatim>\<open>glm::length\<close> and \<^verbatim>\<open>glm::normalize\<close>, the last as the library
  computes it: the vector times the inverse square root of its dot product with itself.\<close>

definition dot :: "vec3 \<Rightarrow> vec3 \<Rightarrow> float" where
  "dot a b = vx a * vx b + vy a * vy b + vz a * vz b"

definition vlength :: "vec3 \<Rightarrow> float" where
  "vlength v = fsqrt (dot v v)"

definition normalize :: "vec3 \<Rightarrow> vec3" where
  "normalize v = scale_r v (inversesqrt (dot v v))"

section \<open>RigidBody\<close>

text \<open>Modelled from the spec: \<^verbatim>\<open>struct RigidBody\<close>, whose declaration is not among the
  sources. Its fields are those of the spec (3): position, velocity, net force, net impulse,
  inverse mass; and \<open>acceleration\<close>, which \<^verbatim>\<open>IntegrateLinear\<close> assigns.\<close>

record RigidBody =
  inverseMass :: float
  position :: vec3
  velocity :: vec3
  acceleration :: vec3
  netForce :: vec3
  netImpulse :: vec3

text \<open>\<^verbatim>\<open>IntegrateLinear\<close> (main.cpp): the assignments in the order of the source, each on
  the body as the previous one left it.\<close>

definition IntegrateLinear :: "float \<Rightarrow> RigidBody \<Rightarrow> RigidBody" where
  "IntegrateLinear dt body =
     (let body1 = body\<lparr>acceleration := scale (inverseMass body) (netForce body)\<rparr>;
          v0dT = scale dt (velocity body1);
          aT2 = scale_r (scale (Finite (1/2)) (acceleration body1)) (powf_2 dt);
          body2 = body1\<lparr>position := position body1 + (v0dT + aT2)\<rparr>;
          body3 = body2\<lparr>velocity := velocity body2
                    + (scale dt (acceleration body2) + scale (inverseMass body2) (netImpulse body2))\<rparr>;
          body4 = body3\<lparr>netImpulse := vec3_all (Finite 0)\<rparr>
      in body4\<lparr>netForce := netImpulse body4\<rparr>)"

section \<open>Counted loops\<close>

text \<open>\<^verbatim>\<open>for (int i = lo; i < hi; ++i) s = f i s\<close>. The bounds of every loop below are
  fields that no statement of the loop assigns, so they are taken once, before the loop.
  The counters and the vertex index computed from them are mathematical integers: a counter
  stays below the extent of an array held in memory, and so does the vertex index under
  \<open>lattice_ok\<close>.\<close>

function for_loop :: "int \<Rightarrow> int \<Rightarrow> (int \<Rightarrow> 's \<Rightarrow> 's) \<Rightarrow> 's \<Rightarrow> 's" where
  "for_loop i hi f s = (if i < hi then for_loop (i + 1) hi f (f i s) else s)"
  by pat_completeness auto
termination
  by (relation "measure (\<lambda>(i, hi, f, s). nat (hi - i))") auto

declare for_loop.simps [simp del]

section \<open>SoftBody\<close>

text \<open>\<^verbatim>\<open>struct SoftBody\<close>: \<open>bodies\<close> is an array of \<open>subdivisionsY\<close> rows of
  \<open>subdivisionsX\<close> bodies each, as the constructor allocates it.\<close>

record SoftBody =
  subdivisionsX :: int
  subdivisionsY :: int
  restHeight :: float
  restWidth :: float
  numRigidBodies :: "32 word"
  bodies :: "RigidBody list list"
  coefficient :: float
  dampening :: float

text \<open>\<^verbatim>\<open>bodies[i][j]\<close>, read and written. C++ gives no meaning to an index outside the
  arrays; \<open>grid_ok\<close> says that the arrays have the extents the fields announce, and
  \<open>in_grid\<close> that an index pair lies inside them. What is proved about the grid below is
  proved under \<open>grid_ok\<close>, where every index that \<^verbatim>\<open>update\<close> uses is inside.\<close>

definition cell :: "SoftBody \<Rightarrow> int \<Rightarrow> int \<Rightarrow> RigidBody" where
  "cell sb i j = bodies sb ! nat i ! nat j"

definition set_cell :: "int \<Rightarrow> int \<Rightarrow> RigidBody \<Rightarrow> SoftBody \<Rightarrow> SoftBody" where
  "set_cell i j b sb = sb\<lparr>bodies := (bodies sb)[nat i := (bodies sb ! nat i)[nat j := b]]\<rparr>"

definition grid_ok :: "SoftBody \<Rightarrow> bool" where
  "grid_ok sb = (length (bodies sb) = nat (subdivisionsY sb)
     \<and> list_all (\<lambda>row. length row = nat (subdivisionsX sb)) (bodies sb))"

definition in_grid :: "SoftBody \<Rightarrow> int \<Rightarrow> int \<Rightarrow> bool" where
  "in_grid sb i j = (0 \<le> i \<and> i < subdivisionsY sb \<and> 0 \<le> j \<and> j < subdivisionsX sb)"

text \<open>Modelled from the spec: the constructors of \<^verbatim>\<open>RigidBody\<close>, whose declaration is
  not among the sources. The spec (3, 4.1) has position, velocity, net force, net impulse and
  inverse mass set at construction, the accumulators zero before the first step, and an
  inverse mass of 0 standing for an infinite mass; the arguments are those of the call in
  \<^verbatim>\<open>SoftBody::SoftBody\<close>: position, velocity, acceleration, mass. Every body that
  \<^verbatim>\<open>new RigidBody[subX]\<close> default-constructs is assigned before it is read.\<close>

definition RigidBody_ctor :: "vec3 \<Rightarrow> vec3 \<Rightarrow> vec3 \<Rightarrow> float \<Rightarrow> RigidBody" where
  "RigidBody_ctor pos vel acc mass =
     \<lparr>inverseMass = (if mass = Finite 0 then Finite 0 else Finite 1 / mass),
      position = pos, velocity = vel, acceleration = acc,
      netForce = vec3_all (Finite 0), netImpulse = vec3_all (Finite 0)\<rparr>"

definition RigidBody_default :: RigidBody where
  "RigidBody_default =
     RigidBody_ctor (vec3_all (Finite 0)) (vec3_all (Finite 0)) (vec3_all (Finite 0)) (Finite 1)"

text \<open>\<^verbatim>\<open>SoftBody::SoftBody(width, height, subX, subY, coeff, damp)\<close> (SoftBody.h). An
  array \<^verbatim>\<open>new\<close> of negative length throws; that is the only way the constructor fails.
  \<^verbatim>\<open>numRigidBodies\<close> is an \<^verbatim>\<open>unsigned int\<close>. With no subdivisions along an axis the
  division gives no number for the rest length, and the grid has no cell.\<close>

datatype ctor_error = Bad_array_new_length

definition SoftBody_ctor ::
  "float \<Rightarrow> float \<Rightarrow> int \<Rightarrow> int \<Rightarrow> float \<Rightarrow> float \<Rightarrow> ctor_error + SoftBody" where
  "SoftBody_ctor width height subX subY coeff damp =
     (let startWidth = - width / Finite 2;
          widthStep = width / float_of_int subX;
          startHeight = - height / Finite 2;
          heightStep = height / float_of_int subY;
          sb0 = \<lparr>subdivisionsX = subX, subdivisionsY = subY,
                 restHeight = heightStep, restWidth = widthStep,
                 numRigidBodies = word_of_int (subX * subY),
                 bodies = replicate (nat subY) [],
                 coefficient = coeff, dampening = damp\<rparr>
      in if subY < 0 \<or> (0 < subY \<and> subX < 0) then Inl Bad_array_new_length
         else Inr (for_loop 0 subY
           (\<lambda>i sb. for_loop 0 subX
              (\<lambda>j. set_cell i j (RigidBody_ctor
                 (Vec3 (startWidth + widthStep * float_of_int j)
                       (startHeight + heightStep * float_of_int i) (Finite 0))
                 (vec3_all (Finite 0)) (vec3_all (Finite 0)) (Finite 1)))
              (sb\<lparr>bodies := (bodies sb)[nat i := replicate (nat subX) RigidBody_default]\<rparr>))
           sb0))"

section \<open>The simulation step\<close>

text \<open>The force of one spring on the body at \<open>self\<close>, from the neighbour at \<open>other\<close>
  (the first term of each of the four force statements of \<^verbatim>\<open>update\<close>).\<close>

definition spring_force :: "float \<Rightarrow> float \<Rightarrow> vec3 \<Rightarrow> vec3 \<Rightarrow> vec3" where
  "spring_force k rest self other =
     (let displacement = other - self;
          direction = normalize displacement;
          mag = vlength displacement
      in scale (k * (mag - rest)) direction)"

text \<open>\<^verbatim>\<open>bodies[i][j].netForce += f\<close>.\<close>

definition add_netForce :: "int \<Rightarrow> int \<Rightarrow> vec3 \<Rightarrow> SoftBody \<Rightarrow> SoftBody" where
  "add_netForce i j f sb = set_cell i j ((cell sb i j)\<lparr>netForce := netForce (cell sb i j) + f\<rparr>) sb"

text \<open>One of the four blocks: the spring to the neighbour at \<open>(ni, nj)\<close> with rest length
  \<open>rest\<close>, and the dampening of the body's own velocity, added to the net force of the
  body at \<open>(i, j)\<close>.\<close>

definition apply_spring :: "float \<Rightarrow> int \<Rightarrow> int \<Rightarrow> int \<Rightarrow> int \<Rightarrow> SoftBody \<Rightarrow> SoftBody" where
  "apply_spring rest ni nj i j sb =
     add_netForce i j
       (spring_force (coefficient sb) rest (position (cell sb i j)) (position (cell sb ni nj))
        - scale_r (velocity (cell sb i j)) (dampening sb)) sb"

text \<open>The four \<^verbatim>\<open>if\<close> blocks of the body of the first pair of loops of \<^verbatim>\<open>update\<close>, for
  the body at \<open>(i, j)\<close>: the spring to the body above, below, left and right of it.\<close>

definition block_above :: "int \<Rightarrow> int \<Rightarrow> SoftBody \<Rightarrow> SoftBody" where
  "block_above i j sb = (if i > 0 then apply_spring (restHeight sb) (i - 1) j i j sb else sb)"

definition block_below :: "int \<Rightarrow> int \<Rightarrow> SoftBody \<Rightarrow> SoftBody" where
  "block_below i j sb =
     (if i < subdivisionsY sb - 1 then apply_spring (restHeight sb) (i + 1) j i j sb else sb)"

definition block_left :: "int \<Rightarrow> int \<Rightarrow> SoftBody \<Rightarrow> SoftBody" where
  "block_left i j sb = (if j > 0 then apply_spring (restWidth sb) i (j - 1) i j sb else sb)"

definition block_right :: "int \<Rightarrow> int \<Rightarrow> SoftBody \<Rightarrow> SoftBody" where
  "block_right i j sb =
     (if j < subdivisionsX sb - 1 then apply_spring (restWidth sb) i (j + 1) i j sb else sb)"

text \<open>The body of the first pair of loops of \<^verbatim>\<open>update\<close>: the four blocks in the order of
  the source, and the external force on row 0.\<close>

definition cell_forces :: "vec3 \<Rightarrow> int \<Rightarrow> int \<Rightarrow> SoftBody \<Rightarrow> SoftBody" where
  "cell_forces externalForce i j sb =
     (let sb1 = block_above i j sb;
          sb2 = block_below i j sb1;
          sb3 = block_left i j sb2;
          sb4 = block_right i j sb3
      in if i = 0 then add_netForce i j externalForce sb4 else sb4)"

definition apply_forces :: "vec3 \<Rightarrow> SoftBody \<Rightarrow> SoftBody" where
  "apply_forces externalForce sb =
     for_loop 0 (subdivisionsY sb)
       (\<lambda>i. for_loop 0 (subdivisionsX sb) (\<lambda>j. cell_forces externalForce i j)) sb"

text \<open>Modelled from the spec: \<^verbatim>\<open>struct Vertex\<close> and \<^verbatim>\<open>struct Mesh\<close>, the mesh that is
  drawn, whose declarations are not among the sources. The spec (3) has one vertex for each
  body; a vertex has the seven floats that \<^verbatim>\<open>main\<close> assigns (\<^verbatim>\<open>x y z r g b a\<close>, written
  here with the prefix \<open>vertex_\<close>), and \<^verbatim>\<open>update\<close> uses of the mesh its array of vertices
  only. C++ gives no meaning to a write outside that array; \<open>lattice_ok\<close> below says that
  every index written is inside.\<close>

record Vertex =
  vertex_x :: float
  vertex_y :: float
  vertex_z :: float
  vertex_r :: float
  vertex_g :: float
  vertex_b :: float
  vertex_a :: float

record Mesh =
  vertices :: "Vertex list"

text \<open>The two globals that \<^verbatim>\<open>update\<close> works on.\<close>

record globals =
  body :: SoftBody
  lattice :: Mesh

text \<open>The body of the second pair of loops of \<^verbatim>\<open>update\<close>.\<close>

definition integrate_cell :: "float \<Rightarrow> int \<Rightarrow> int \<Rightarrow> globals \<Rightarrow> globals" where
  "integrate_cell dt i j g =
     (let numVertex = i * subdivisionsY (body g) + j;
          g1 = g\<lparr>body := set_cell i j (IntegrateLinear dt (cell (body g) i j)) (body g)\<rparr>;
          p = position (cell (body g1) i j);
          vs = vertices (lattice g1)
      in g1\<lparr>lattice := (lattice g1)\<lparr>vertices :=
            vs[nat numVertex := (vs ! nat numVertex)
                 \<lparr>vertex_x := vx p, vertex_y := vy p, vertex_z := vz p\<rparr>]\<rparr>\<rparr>)"

definition integrate_all :: "float \<Rightarrow> globals \<Rightarrow> globals" where
  "integrate_all dt g =
     for_loop 0 (subdivisionsY (body g))
       (\<lambda>i. for_loop 0 (subdivisionsX (body g)) (\<lambda>j. integrate_cell dt i j)) g"

text \<open>\<open>Step\<close> is \<^verbatim>\<open>update\<close> from the declaration of \<^verbatim>\<open>displacement\<close> on: both pairs of
  loops, for a given external force.\<close>

definition Step :: "float \<Rightarrow> vec3 \<Rightarrow> globals \<Rightarrow> globals" where
  "Step dt externalForce g = integrate_all dt (g\<lparr>body := apply_forces externalForce (body g)\<rparr>)"

text \<open>The keys and buttons that \<^verbatim>\<open>update\<close> polls, and the whole of \<^verbatim>\<open>update\<close>.\<close>

record input =
  key_left_shift :: bool
  mouse_button_0 :: bool
  mouse_button_1 :: bool

definition external_force :: "input \<Rightarrow> vec3" where
  "external_force inp =
     (let e = vec3_all (Finite 0)
      in if key_left_shift inp
         then (let e1 = (if mouse_button_0 inp then Vec3 (vx e) (Finite 2) (vz e) else e)
               in if mouse_button_1 inp then Vec3 (vx e1) (Finite (- 2)) (vz e1) else e1)
         else (let e1 = (if mouse_button_0 inp then Vec3 (Finite 2) (vy e) (vz e) else e)
               in if mouse_button_1 inp then Vec3 (Finite (- 2)) (vy e1) (vz e1) else e1))"

definition update :: "float \<Rightarrow> input \<Rightarrow> globals \<Rightarrow> globals" where
  "update dt inp g = Step dt (external_force inp) g"

text \<open>The mesh has room for every vertex that \<open>Step\<close> writes: the largest index written
  is that of the last cell.\<close>

definition lattice_ok :: "globals \<Rightarrow> bool" where
  "lattice_ok g =
     (if 0 < subdivisionsY (body g) \<and> 0 < subdivisionsX (body g)
      then (subdivisionsY (body g) - 1) * subdivisionsY (body g) + (subdivisionsX (body g) - 1)
             < int (length (vertices (lattice g)))
      else True)"

definition state_ok :: "globals \<Rightarrow> bool" where
  "state_ok g = (grid_ok (body g) \<and> lattice_ok g)"

text \<open>\<^verbatim>\<open>checkTime\<close> calls \<^verbatim>\<open>update\<close> once for every physics step that is due;
  \<open>Steps\<close> is a run of steps, one for each external force of the list.\<close>

fun Steps :: "float \<Rightarrow> vec3 list \<Rightarrow> globals \<Rightarrow> globals" where
  "Steps dt [] g = g"
| "Steps dt (e # es) g = Steps dt es (Step dt e g)"

section \<open>The reference composition of a step\<close>

text \<open>What the specification (4.2, 4.3) describes, written from its words and compared with
  \<open>Step\<close> below: for every cell the net force of its existing neighbours (above, below,
  left, right: spring force plus damping force, each computed from the positions and
  velocities before the step) and the external force on row 0, and only then the integration
  of every cell.\<close>

definition ref_neighbours :: "SoftBody \<Rightarrow> int \<Rightarrow> int \<Rightarrow> (int \<times> int \<times> float) list" where
  "ref_neighbours sb i j =
     (if 0 < i then [(i - 1, j, restHeight sb)] else [])
     @ (if i < subdivisionsY sb - 1 then [(i + 1, j, restHeight sb)] else [])
     @ (if 0 < j then [(i, j - 1, restWidth sb)] else [])
     @ (if j < subdivisionsX sb - 1 then [(i, j + 1, restWidth sb)] else [])"

definition ref_neighbour_force ::
  "SoftBody \<Rightarrow> int \<Rightarrow> int \<Rightarrow> int \<times> int \<times> float \<Rightarrow> vec3" where
  "ref_neighbour_force sb i j n =
     (case n of (ni, nj, restLength) \<Rightarrow>
        let self = cell sb i j;
            neighbor = cell sb ni nj;
            displacement = position neighbor - position self;
            direction = normalize displacement;
            distance = vlength displacement;
            springForce = scale (coefficient sb * (distance - restLength)) direction;
            dampingForce = scale_r (- velocity self) (dampening sb)
        in springForce + dampingForce)"

definition ref_net_force :: "vec3 \<Rightarrow> SoftBody \<Rightarrow> int \<Rightarrow> int \<Rightarrow> vec3" where
  "ref_net_force externalForce sb i j =
     (let f = foldl (\<lambda>acc n. acc + ref_neighbour_force sb i j n)
                (netForce (cell sb i j)) (ref_neighbours sb i j)
      in if i = 0 then f + externalForce else f)"

definition ref_accumulate :: "vec3 \<Rightarrow> SoftBody \<Rightarrow> SoftBody" where
  "ref_accumulate externalForce sb =
     sb\<lparr>bodies :=
          map (\<lambda>i. map (\<lambda>j. (cell sb i j)\<lparr>netForce := ref_net_force externalForce sb i j\<rparr>)
                      [0..subdivisionsX sb - 1])
              [0..subdivisionsY sb - 1]\<rparr>"

definition ref_integrate :: "float \<Rightarrow> SoftBody \<Rightarrow> SoftBody" where
  "ref_integrate dt sb = sb\<lparr>bodies := map (map (IntegrateLinear dt)) (bodies sb)\<rparr>"

definition ref_Step :: "float \<Rightarrow> vec3 \<Rightarrow> SoftBody \<Rightarrow> SoftBody" where
  "ref_Step dt externalForce sb = ref_integrate dt (ref_accumulate externalForce sb)"

section \<open>Notions used in the proofs\<close>

text \<open>Everything of a soft body but its bodies.\<close>

definition frame :: "SoftBody \<Rightarrow> SoftBody" where
  "frame sb = sb\<lparr>bodies := []\<rparr>"

text \<open>The grid with the net force of one body replaced.\<close>

definition with_force :: "int \<Rightarrow> int \<Rightarrow> vec3 \<Rightarrow> SoftBody \<Rightarrow> SoftBody" where
  "with_force i j f sb = set_cell i j ((cell sb i j)\<lparr>netForce := f\<rparr>) sb"

text \<open>The net force that \<open>cell_forces\<close> leaves in the body at \<open>(i, j)\<close>, as a value: the
  four guarded additions and the external force, from the net force \<open>f0\<close> on.\<close>

definition net_force_from :: "vec3 \<Rightarrow> vec3 \<Rightarrow> SoftBody \<Rightarrow> int \<Rightarrow> int \<Rightarrow> vec3" where
  "net_force_from f0 externalForce sb i j =
     (let b = cell sb i j;
          damp = scale_r (velocity b) (dampening sb);
          f1 = (if i > 0 then f0 + (spring_force (coefficient sb) (restHeight sb) (position b)
                   (position (cell sb (i - 1) j)) - damp) else f0);
          f2 = (if i < subdivisionsY sb - 1
                then f1 + (spring_force (coefficient sb) (restHeight sb) (position b)
                   (position (cell sb (i + 1) j)) - damp) else f1);
          f3 = (if j > 0 then f2 + (spring_force (coefficient sb) (restWidth sb) (position b)
                   (position (cell sb i (j - 1))) - damp) else f2);
          f4 = (if j < subdivisionsX sb - 1
                then f3 + (spring_force (coefficient sb) (restWidth sb) (position b)
                   (position (cell sb i (j + 1))) - damp) else f3)
      in if i = 0 then f4 + externalForce else f4)"

definition net_force :: "vec3 \<Rightarrow> SoftBody \<Rightarrow> int \<Rightarrow> int \<Rightarrow> vec3" where
  "net_force externalForce sb i j = net_force_from (netForce (cell sb i j)) externalForce sb i j"

definition forced :: "vec3 \<Rightarrow> SoftBody \<Rightarrow> int \<Rightarrow> int \<Rightarrow> RigidBody" where
  "forced ext s0 a c = (cell s0 a c)\<lparr>netForce := net_force ext s0 a c\<rparr>"

definition integrated :: "float \<Rightarrow> SoftBody \<Rightarrow> int \<Rightarrow> int \<Rightarrow> RigidBody" where
  "integrated dt s1 a c = IntegrateLinear dt (cell s1 a c)"

text \<open>The invariant of a pair of loops that visits the grid row by row and replaces the body
  at each cell: when the loops stand before cell \<open>(i, j)\<close>, the cells before it hold their
  new bodies \<open>T\<close>, the others the bodies of the grid \<open>s0\<close> that the loops started on.\<close>

definition done_before :: "int \<Rightarrow> int \<Rightarrow> int \<Rightarrow> int \<Rightarrow> bool" where
  "done_before i j a c = (a < i \<or> (a = i \<and> c < j))"

definition grid_inv ::
  "SoftBody \<Rightarrow> (int \<Rightarrow> int \<Rightarrow> RigidBody) \<Rightarrow> int \<Rightarrow> int \<Rightarrow> SoftBody \<Rightarrow> bool" where
  "grid_inv s0 T i j s = (grid_ok s \<and> frame s = frame s0
     \<and> (\<forall>a c. in_grid s0 a c \<longrightarrow>
           cell s a c = (if done_before i j a c then T a c else cell s0 a c)))"

section \<open>The scenario of the specification\<close>

text \<open>The soft body of the end-to-end scenario (width and height 1, 2 by 2 subdivisions,
  coefficient 25, damping 0.5), with a mesh of four vertices, and the time step that
  \<^verbatim>\<open>update\<close> is called with: the \<^verbatim>\<open>double\<close> 0.012 of \<^verbatim>\<open>physicsStep\<close> as a
  \<^verbatim>\<open>float\<close>, which is \<open>6442451 / 2\<^sup>2\<^sup>9\<close>.\<close>

definition scenario_body :: SoftBody where
  "scenario_body = projr (SoftBody_ctor (Finite 1) (Finite 1) 2 2 (Finite 25) (Finite (1/2)))"

definition blank_vertex :: Vertex where
  "blank_vertex = \<lparr>vertex_x = Finite 0, vertex_y = Finite 0, vertex_z = Finite 0,
     vertex_r = Finite 0, vertex_g = Finite 1, vertex_b = Finite 1, vertex_a = Finite 1\<rparr>"

definition scenario :: globals where
  "scenario = \<lparr>body = scenario_body, lattice = \<lparr>vertices = replicate 4 blank_vertex\<rparr>\<rparr>"

definition physicsStep :: float where
  "physicsStep = Finite (6442451/536870912)"

text \<open>A body at rest at \<open>(a, b, 0)\<close> with inverse mass 1, as the constructor makes it.\<close>

definition rest_body :: "real \<Rightarrow> real \<Rightarrow> RigidBody" where
  "rest_body a b =
     \<lparr>inverseMass = Finite 1, position = Vec3 (Finite a) (Finite b) (Finite 0),
      velocity = Vec3 (Finite 0) (Finite 0) (Finite 0),
      acceleration = Vec3 (Finite 0) (Finite 0) (Finite 0),
      netForce = Vec3 (Finite 0) (Finite 0) (Finite 0),
      netImpulse = Vec3 (Finite 0) (Finite 0) (Finite 0)\<rparr>"

section \<open>Notions used in the claims\<close>

text \<open>The number of neighbours that the four guards of \<open>cell_forces\<close> find for a
  cell.\<close>

definition neighbour_count :: "SoftBody \<Rightarrow> int \<Rightarrow> int \<Rightarrow> nat" where
  "neighbour_count sb i j =
     (if 0 < i then 1 else 0) + (if i < subdivisionsY sb - 1 then 1 else 0)
     + (if 0 < j then 1 else 0) + (if j < subdivisionsX sb - 1 then 1 else 0)"

text \<open>A float that is a number; a vector in the plane \<open>z = 0\<close> whose components are
  numbers; a body whose inverse mass is a number and whose position, velocity, net force and
  net impulse are such vectors; a soft body of such bodies whose parameters are numbers.\<close>

definition is_finite :: "float \<Rightarrow> bool" where
  "is_finite a = (case a of Finite u \<Rightarrow> True | NaN \<Rightarrow> False)"

definition flat :: "vec3 \<Rightarrow> bool" where
  "flat v = (is_finite (vx v) \<and> is_finite (vy v) \<and> vz v = Finite 0)"

definition flat_body :: "RigidBody \<Rightarrow> bool" where
  "flat_body b = (is_finite (inverseMass b) \<and> flat (position b) \<and> flat (velocity b)
     \<and> flat (netForce b) \<and> flat (netImpulse b))"

definition flat_grid :: "SoftBody \<Rightarrow> bool" where
  "flat_grid sb = (is_finite (restHeight sb) \<and> is_finite (restWidth sb)
     \<and> is_finite (coefficient sb) \<and> is_finite (dampening sb)
     \<and> list_all (list_all flat_body) (bodies sb))"

text \<open>Numbers with room to spare in the range of a float. A float is moderate when it is
  a number of magnitude at most \<open>2\<^sup>2\<^sup>0\<close>; a float is in range when it is a number of
  magnitude below \<open>FLT_OVERFLOW\<close>. Two positions are apart when the dot product of their
  displacement with itself is at least \<open>2\<^sup>-\<^sup>4\<^sup>0\<close>: they are at least \<open>2\<^sup>-\<^sup>2\<^sup>0\<close> from each
  other. The sums and products that a step forms of moderate numbers have a magnitude of at
  most \<open>2\<^sup>1\<^sup>0\<^sup>6\<close>, and the dot product of the displacement of two moderate positions that
  are apart lies between \<open>2\<^sup>-\<^sup>4\<^sup>0\<close> and \<open>2\<^sup>4\<^sup>4\<close>: none of them leaves the range of a
  float, which ends at \<open>2\<^sup>1\<^sup>2\<^sup>8\<close> and at \<open>2\<^sup>-\<^sup>1\<^sup>4\<^sup>9\<close>.\<close>

definition moderate :: "float \<Rightarrow> bool" where
  "moderate a = (case a of Finite u \<Rightarrow> \<bar>u\<bar> \<le> 2 ^ 20 | NaN \<Rightarrow> False)"

definition moderate_vec :: "vec3 \<Rightarrow> bool" where
  "moderate_vec v = (moderate (vx v) \<and> moderate (vy v) \<and> moderate (vz v))"

definition in_range :: "float \<Rightarrow> bool" where
  "in_range a = (case a of Finite u \<Rightarrow> \<bar>u\<bar> < FLT_OVERFLOW | NaN \<Rightarrow> False)"

definition in_range_vec :: "vec3 \<Rightarrow> bool" where
  "in_range_vec v = (in_range (vx v) \<and> in_range (vy v) \<and> in_range (vz v))"

definition apart :: "vec3 \<Rightarrow> vec3 \<Rightarrow> bool" where
  "apart p q = (case dot (q - p) (q - p) of Finite u \<Rightarrow> 1 / 2 ^ 40 \<le> u | NaN \<Rightarrow> False)"

text \<open>A body all of whose numbers are moderate; a grid in which any two bodies that a
  spring connects are apart; a soft body whose parameters are moderate, whose bodies are
  moderate and whose springs connect bodies that are apart.\<close>

definition tame_body :: "RigidBody \<Rightarrow> bool" where
  "tame_body b = (moderate (inverseMass b) \<and> moderate_vec (position b)
     \<and> moderate_vec (velocity b) \<and> moderate_vec (netForce b) \<and> moderate_vec (netImpulse b))"

definition spread :: "SoftBody \<Rightarrow> bool" where
  "spread sb =
     list_all (\<lambda>i. list_all (\<lambda>j.
         (i < subdivisionsY sb - 1 \<longrightarrow> apart (position (cell sb i j)) (position (cell sb (i + 1) j)))
       \<and> (j < subdivisionsX sb - 1 \<longrightarrow> apart (position (cell sb i j)) (position (cell sb i (j + 1)))))
       [0..subdivisionsX sb - 1]) [0..subdivisionsY sb - 1]"

definition tame :: "SoftBody \<Rightarrow> bool" where
  "tame sb = (moderate (restHeight sb) \<and> moderate (restWidth sb)
     \<and> moderate (coefficient sb) \<and> moderate (dampening sb)
     \<and> list_all (list_all tame_body) (bodies sb) \<and> spread sb)"

text \<open>A body whose position, velocity, net force and net impulse have a zero \<open>z\<close>
  component, a grid of such bodies, and an external force that is moderate and has a zero
  \<open>z\<close> component.\<close>

definition planar_body :: "RigidBody \<Rightarrow> bool" where
  "planar_body b = (vz (position b) = Finite 0 \<and> vz (velocity b) = Finite 0
     \<and> vz (netForce b) = Finite 0 \<and> vz (netImpulse b) = Finite 0)"

definition planar_grid :: "SoftBody \<Rightarrow> bool" where
  "planar_grid sb = list_all (list_all planar_body) (bodies sb)"

definition planar_force :: "vec3 \<Rightarrow> bool" where
  "planar_force e = (moderate_vec e \<and> vz e = Finite 0)"

text \<open>A run of steps each of which starts from a tame soft body.\<close>

fun tame_run :: "float \<Rightarrow> vec3 list \<Rightarrow> globals \<Rightarrow> bool" where
  "tame_run dt [] g = True"
| "tame_run dt (e # es) g = (tame (body g) \<and> tame_run dt es (Step dt e g))"

text \<open>The positions of the bodies in row-major order, and those of the vertices of the
  mesh in the order of the array.\<close>

definition vertex_position :: "Vertex \<Rightarrow> vec3" where
  "vertex_position v = Vec3 (vertex_x v) (vertex_y v) (vertex_z v)"

definition mesh_positions :: "Mesh \<Rightarrow> vec3 list" where
  "mesh_positions m = map vertex_position (vertices m)"

definition body_positions :: "SoftBody \<Rightarrow> vec3 list" where
  "body_positions sb = map position (concat (bodies sb))"


text \<open>The scenario with the body at \<open>(0, 0)\<close> moving, and a grid of one moving body.\<close>

definition moving_body :: SoftBody where
  "moving_body = set_cell 0 0 ((cell scenario_body 0 0)\<lparr>velocity := Vec3 (Finite 1) (Finite 0) (Finite 0)\<rparr>) scenario_body"

definition lone_body :: SoftBody where
  "lone_body =
     \<lparr>subdivisionsX = 1, subdivisionsY = 1, restHeight = Finite 1, restWidth = Finite 1,
      numRigidBodies = 1,
      bodies = [[(rest_body 0 0)\<lparr>velocity := Vec3 (Finite 1) (Finite 0) (Finite 0)\<rparr>]],
      coefficient = Finite 25, dampening = Finite (1/2)\<rparr>"


text \<open>The parameters of the scenario with the four bodies at the corners of a unit
  square.\<close>

definition unit_square_body :: SoftBody where
  "unit_square_body = scenario_body\<lparr>bodies := [[rest_body 0 0, rest_body 1 0], [rest_body 0 1, rest_body 1 1]]\<rparr>"

text \<open>A grid of two rows of three bodies, as the constructor makes it for a width of 3 and
  a height of 2, with a mesh of six vertices.\<close>

definition wide_body :: SoftBody where
  "wide_body = projr (SoftBody_ctor (Finite 3) (Finite 2) 3 2 (Finite 25) (Finite (1/2)))"

definition wide :: globals where
  "wide = \<lparr>body = wide_body, lattice = \<lparr>vertices = replicate 6 blank_vertex\<rparr>\<rparr>"

text \<open>The soft body that the constructor makes for a width and a height of \<open>2\<^sup>-\<^sup>9\<^sup>9\<close>, 2 by
  2 subdivisions, coefficient 25 and damping 0.5, with a mesh of four vertices: neighbours are
  \<open>2\<^sup>-\<^sup>1\<^sup>0\<^sup>0\<close> from each other.\<close>

definition speck_body :: SoftBody where
  "speck_body =
     projr (SoftBody_ctor (Finite (1 / 2 ^ 99)) (Finite (1 / 2 ^ 99)) 2 2 (Finite 25) (Finite (1/2)))"

definition speck :: globals where
  "speck = \<lparr>body = speck_body, lattice = \<lparr>vertices = replicate 4 blank_vertex\<rparr>\<rparr>"

text \<open>The external force that \<^verbatim>\<open>update\<close> applies while mouse button 0 alone is held
  (no shift key, no button 1), and the scenario after one step with it.\<close>

definition pull :: vec3 where
  "pull = Vec3 (Finite 2) (Finite 0) (Finite 0)"

definition dragged :: globals where
  "dragged = Step physicsStep pull scenario"

section \<open>Arithmetic of the number model\<close>

lemma float_plus_simps [simp]:
  "Finite u + Finite v = Finite (u + v)" "NaN + a = NaN" "a + NaN = NaN"
  by (simp_all add: plus_float_def split: float.splits)

lemma float_minus_simps [simp]:
  "Finite u - Finite v = Finite (u - v)" "NaN - a = NaN" "a - NaN = NaN"
  by (simp_all add: minus_float_def split: float.splits)

lemma float_times_simps [simp]:
  "Finite u * Finite v = Finite (u * v)" "NaN * a = NaN" "a * NaN = NaN"
  by (simp_all add: times_float_def split: float.splits)

lemma float_uminus_simps [simp]:
  "- Finite u = Finite (- u)" "- NaN = (NaN :: float)"
  by (simp_all add: uminus_float_def)

lemma float_divide_simps [simp]:
  "Finite u / Finite v = (if v = 0 then NaN else Finite (u / v))" "NaN / a = NaN" "a / NaN = NaN"
  by (simp_all add: divide_float_def split: float.splits)

lemma float_zero_one [simp]: "(0 :: float) = Finite 0" "(1 :: float) = Finite 1"
  by (simp_all add: zero_float_def one_float_def)

lemma FLT_positive: "0 < FLT_UNDERFLOW" "0 < FLT_OVERFLOW" "FLT_UNDERFLOW < FLT_OVERFLOW"
  by (simp_all add: FLT_UNDERFLOW_def FLT_OVERFLOW_def)

lemma fsqrt_simps [simp]:
  "fsqrt (Finite u) = (if u < 0 then NaN
                       else if u < FLT_UNDERFLOW then Finite 0
                       else if FLT_OVERFLOW \<le> u then NaN
                       else Finite (sqrt u))"
  "fsqrt NaN = NaN"
  by (simp_all add: fsqrt_def)

lemma inversesqrt_simps [simp]:
  "inversesqrt (Finite u) = (if u < FLT_UNDERFLOW then NaN
                             else if FLT_OVERFLOW \<le> u then Finite 0
                             else Finite (1 / sqrt u))"
  "inversesqrt NaN = NaN"
  by (simp_all add: inversesqrt_def)

lemma powf_2_simps [simp]:
  "powf_2 (Finite u) = (if FLT_OVERFLOW \<le> u * u then NaN else Finite (u * u))"
  "powf_2 NaN = NaN"
  by (simp_all add: powf_2_def)

lemma vec3_eq_iff: "a = b \<longleftrightarrow> vx a = vx b \<and> vy a = vy b \<and> vz a = vz b"
  by (cases a, cases b) simp

lemma vec3_sel_simps [simp]:
  "vx (a + b) = vx a + vx b" "vy (a + b) = vy a + vy b" "vz (a + b) = vz a + vz b"
  "vx (a - b) = vx a - vx b" "vy (a - b) = vy a - vy b" "vz (a - b) = vz a - vz b"
  "vx (- a) = - vx a" "vy (- a) = - vy a" "vz (- a) = - vz a"
  "vx (scale s a) = s * vx a" "vy (scale s a) = s * vy a" "vz (scale s a) = s * vz a"
  "vx (scale_r a s) = vx a * s" "vy (scale_r a s) = vy a * s" "vz (scale_r a s) = vz a * s"
  "vx (0 :: vec3) = Finite 0" "vy (0 :: vec3) = Finite 0" "vz (0 :: vec3) = Finite 0"
  "vx (vec3_all s) = s" "vy (vec3_all s) = s" "vz (vec3_all s) = s"
  by (simp_all add: plus_vec3_def minus_vec3_def uminus_vec3_def scale_def scale_r_def
      zero_vec3_def vec3_all_def)

lemma vec3_all_zero [simp]: "vec3_all (Finite 0) = 0"
  by (simp add: vec3_eq_iff)

lemma IntegrateLinear_fields [simp]:
  "inverseMass (IntegrateLinear dt rb) = inverseMass rb"
  "acceleration (IntegrateLinear dt rb) = scale (inverseMass rb) (netForce rb)"
  "position (IntegrateLinear dt rb) = position rb
     + (scale dt (velocity rb)
        + scale_r (scale (Finite (1/2)) (scale (inverseMass rb) (netForce rb))) (powf_2 dt))"
  "velocity (IntegrateLinear dt rb) = velocity rb
     + (scale dt (scale (inverseMass rb) (netForce rb))
        + scale (inverseMass rb) (netImpulse rb))"
  "netForce (IntegrateLinear dt rb) = 0"
  "netImpulse (IntegrateLinear dt rb) = 0"
  by (simp_all add: IntegrateLinear_def Let_def)

lemma float_step_velocity:
  "(v :: float) + (d * (m * f) + m * Finite 0) = v + (m * f) * d"
  by (cases v; cases d; cases m; cases f) simp_all

lemma float_step_position:
  "(p :: float) + (d * v + Finite (1/2) * (m * f) * q)
     = p + v * d + Finite (1/2) * ((m * f) * q)"
  by (cases p; cases d; cases v; cases m; cases f; cases q) simp_all

lemma IntegrateLinear_velocity_zero_impulse:
  "netImpulse rb = 0 \<Longrightarrow>
   velocity (IntegrateLinear dt rb)
     = velocity rb + scale_r (scale (inverseMass rb) (netForce rb)) dt"
  by (simp add: vec3_eq_iff float_step_velocity)

lemma IntegrateLinear_position_expanded:
  "position (IntegrateLinear dt rb)
     = position rb + scale_r (velocity rb) dt
       + scale (Finite (1/2)) (scale_r (scale (inverseMass rb) (netForce rb)) (powf_2 dt))"
  by (simp add: vec3_eq_iff float_step_position del: powf_2_simps)

section \<open>Loops over the grid\<close>

lemma for_loop_done: "hi \<le> i \<Longrightarrow> for_loop i hi f s = s"
  by (simp add: for_loop.simps)

lemma for_loop_invariant:
  assumes "P i s" and "i \<le> hi"
    and "\<And>k t. i \<le> k \<Longrightarrow> k < hi \<Longrightarrow> P k t \<Longrightarrow> P (k + 1) (f k t)"
  shows "P hi (for_loop i hi f s)"
  using assms
proof (induction i hi f s rule: for_loop.induct)
  case (1 i hi f s)
  show ?case
  proof (cases "i < hi")
    case True
    have "P (i + 1) (f i s)" using 1(2,4) True by simp
    moreover have "i + 1 \<le> hi" using True by simp
    ultimately have "P hi (for_loop (i + 1) hi f (f i s))"
      using 1(1)[OF True] 1(4) by simp
    then show ?thesis using True by (simp add: for_loop.simps[of i])
  next
    case False
    with 1(3) have "i = hi" by simp
    then show ?thesis using 1(2) by (simp add: for_loop_done)
  qed
qed

lemma frame_fields:
  "frame s = frame t \<Longrightarrow> subdivisionsX s = subdivisionsX t \<and> subdivisionsY s = subdivisionsY t
     \<and> restHeight s = restHeight t \<and> restWidth s = restWidth t
     \<and> coefficient s = coefficient t \<and> dampening s = dampening t"
  by (cases s, cases t) (simp add: frame_def)

lemma frame_set_cell [simp]: "frame (set_cell i j b sb) = frame sb"
  by (simp add: frame_def set_cell_def)

lemma in_grid_frame: "frame s = frame t \<Longrightarrow> in_grid s = in_grid t"
  by (auto simp: in_grid_def fun_eq_iff dest: frame_fields)

lemma grid_ok_set_cell [simp]: "grid_ok sb \<Longrightarrow> grid_ok (set_cell i j b sb)"
  unfolding grid_ok_def set_cell_def
  by (cases "nat i < length (bodies sb)") (auto simp: list_all_length nth_list_update)

lemma cell_set_cell:
  assumes "grid_ok sb" "in_grid sb i j" "0 \<le> a" "0 \<le> c"
  shows "cell (set_cell i j b sb) a c = (if a = i \<and> c = j then b else cell sb a c)"
proof -
  have i: "nat i < length (bodies sb)" and j: "nat j < length (bodies sb ! nat i)"
    using assms(1,2) by (auto simp: grid_ok_def in_grid_def list_all_length)
  have "nat a = nat i \<longleftrightarrow> a = i" "nat c = nat j \<longleftrightarrow> c = j"
    using assms by (auto simp: in_grid_def)
  then show ?thesis using i j
    by (auto simp: cell_def set_cell_def nth_list_update)
qed

lemma grid_eqI:
  assumes "grid_ok s" "grid_ok t" "frame s = frame t"
    and "\<And>a c. in_grid s a c \<Longrightarrow> cell s a c = cell t a c"
  shows "s = t"
proof -
  have dims: "subdivisionsX s = subdivisionsX t" "subdivisionsY s = subdivisionsY t"
    using frame_fields[OF assms(3)] by simp_all
  have "bodies s = bodies t"
  proof (rule nth_equalityI)
    show "length (bodies s) = length (bodies t)"
      using assms(1,2) dims by (simp add: grid_ok_def)
  next
    fix r assume r: "r < length (bodies s)"
    then have r': "r < length (bodies t)" using assms(1,2) dims by (simp add: grid_ok_def)
    show "bodies s ! r = bodies t ! r"
    proof (rule nth_equalityI)
      show "length (bodies s ! r) = length (bodies t ! r)"
        using assms(1,2) dims r r' by (simp add: grid_ok_def list_all_length)
    next
      fix q assume q: "q < length (bodies s ! r)"
      have "in_grid s (int r) (int q)"
        using assms(1) r q by (auto simp: in_grid_def grid_ok_def list_all_length)
      from assms(4)[OF this] show "bodies s ! r ! q = bodies t ! r ! q"
        by (simp add: cell_def)
    qed
  qed
  moreover have "s = (frame s)\<lparr>bodies := bodies s\<rparr>" "t = (frame t)\<lparr>bodies := bodies t\<rparr>"
    by (simp_all add: frame_def)
  ultimately show ?thesis using assms(3) by metis
qed

lemma set_cell_set_cell:
  "set_cell i j b2 (set_cell i j b1 sb) = set_cell i j b2 sb"
  by (cases "nat i < length (bodies sb)") (simp_all add: set_cell_def list_update_beyond)

lemma set_cell_same:
  "grid_ok sb \<Longrightarrow> in_grid sb i j \<Longrightarrow> set_cell i j (cell sb i j) sb = sb"
  by (simp add: set_cell_def cell_def)

lemma with_force_fields [simp]:
  "subdivisionsX (with_force i j f sb) = subdivisionsX sb"
  "subdivisionsY (with_force i j f sb) = subdivisionsY sb"
  "restHeight (with_force i j f sb) = restHeight sb"
  "restWidth (with_force i j f sb) = restWidth sb"
  "coefficient (with_force i j f sb) = coefficient sb"
  "dampening (with_force i j f sb) = dampening sb"
  by (simp_all add: with_force_def set_cell_def)

lemma with_force_same:
  "grid_ok sb \<Longrightarrow> in_grid sb i j \<Longrightarrow> with_force i j (netForce (cell sb i j)) sb = sb"
  by (simp add: with_force_def set_cell_same)

lemma cell_with_force:
  "grid_ok sb \<Longrightarrow> in_grid sb i j \<Longrightarrow> 0 \<le> a \<Longrightarrow> 0 \<le> c \<Longrightarrow>
   cell (with_force i j f sb) a c
     = (if a = i \<and> c = j then (cell sb i j)\<lparr>netForce := f\<rparr> else cell sb a c)"
  by (simp add: with_force_def cell_set_cell)

lemma add_netForce_with_force:
  assumes "grid_ok sb" "in_grid sb i j"
  shows "add_netForce i j e (with_force i j f sb) = with_force i j (f + e) sb"
proof -
  have "0 \<le> i" "0 \<le> j" using assms(2) by (simp_all add: in_grid_def)
  then have "cell (with_force i j f sb) i j = (cell sb i j)\<lparr>netForce := f\<rparr>"
    using assms by (simp add: cell_with_force)
  then show ?thesis
    by (simp add: add_netForce_def) (simp add: with_force_def set_cell_set_cell)
qed

lemma apply_spring_with_force:
  assumes "grid_ok sb" "in_grid sb i j" "0 \<le> ni" "0 \<le> nj" "ni \<noteq> i \<or> nj \<noteq> j"
  shows "apply_spring rest ni nj i j (with_force i j f sb)
     = with_force i j (f + (spring_force (coefficient sb) rest (position (cell sb i j))
          (position (cell sb ni nj)) - scale_r (velocity (cell sb i j)) (dampening sb))) sb"
proof -
  have ij: "0 \<le> i" "0 \<le> j" using assms(2) by (simp_all add: in_grid_def)
  have self: "cell (with_force i j f sb) i j = (cell sb i j)\<lparr>netForce := f\<rparr>"
    using assms(1,2) ij by (simp add: cell_with_force)
  have other: "cell (with_force i j f sb) ni nj = cell sb ni nj"
    using assms by (auto simp: cell_with_force)
  show ?thesis
    unfolding apply_spring_def self other
    by (simp add: add_netForce_with_force[OF assms(1,2)])
qed

lemma cell_forces_with_force:
  assumes "grid_ok sb" "in_grid sb i j"
  shows "cell_forces ext i j (with_force i j f sb) = with_force i j (net_force_from f ext sb i j) sb"
proof -
  have ij: "0 \<le> i" "0 \<le> j" using assms(2) by (simp_all add: in_grid_def)
  show ?thesis
    unfolding cell_forces_def net_force_from_def Let_def
      block_above_def block_below_def block_left_def block_right_def
    using ij assms
    by (cases "0 < i"; cases "i < subdivisionsY sb - 1"; cases "0 < j";
        cases "j < subdivisionsX sb - 1")
       (simp_all add: apply_spring_with_force add_netForce_with_force)
qed

lemma cell_forces_eq:
  assumes "grid_ok sb" "in_grid sb i j"
  shows "cell_forces ext i j sb = with_force i j (net_force ext sb i j) sb"
  using cell_forces_with_force[OF assms, of ext "netForce (cell sb i j)"]
  by (simp add: with_force_same[OF assms] net_force_def)

lemma grid_inv_start: "grid_ok s0 \<Longrightarrow> grid_inv s0 T 0 0 s0"
  by (auto simp: grid_inv_def done_before_def in_grid_def)

lemma grid_inv_next_row:
  "grid_inv s0 T i (max 0 (subdivisionsX s0)) s \<Longrightarrow> grid_inv s0 T (i + 1) 0 s"
  unfolding grid_inv_def done_before_def in_grid_def by auto

lemma grid_inv_first_col:
  "grid_inv s0 T i 0 s \<Longrightarrow> subdivisionsX s0 \<le> 0 \<Longrightarrow> grid_inv s0 T (i + 1) 0 s"
  unfolding grid_inv_def done_before_def in_grid_def by auto

lemma grid_inv_finish:
  "grid_inv s0 T (subdivisionsY s0) 0 s \<Longrightarrow> in_grid s0 a c \<Longrightarrow> cell s a c = T a c"
  unfolding grid_inv_def done_before_def in_grid_def by auto

lemma grid_inv_set_cell:
  assumes "grid_inv s0 T i j s" "in_grid s0 i j"
  shows "grid_inv s0 T i (j + 1) (set_cell i j (T i j) s)"
proof -
  have ok: "grid_ok s" and fr: "frame s = frame s0" using assms(1) by (simp_all add: grid_inv_def)
  have ig: "in_grid s i j" using assms(2) in_grid_frame[OF fr] by simp
  have "cell (set_cell i j (T i j) s) a c
      = (if done_before i (j + 1) a c then T a c else cell s0 a c)" if "in_grid s0 a c" for a c
  proof -
    have "0 \<le> a" "0 \<le> c" using that by (simp_all add: in_grid_def)
    then have "cell (set_cell i j (T i j) s) a c = (if a = i \<and> c = j then T i j else cell s a c)"
      using ok ig by (simp add: cell_set_cell)
    moreover have "cell s a c = (if done_before i j a c then T a c else cell s0 a c)"
      using assms(1) that by (simp add: grid_inv_def)
    ultimately show ?thesis by (auto simp: done_before_def)
  qed
  then show ?thesis using ok fr by (simp add: grid_inv_def)
qed

lemma grid_loops:
  fixes get :: "'s \<Rightarrow> SoftBody"
  assumes ok: "grid_ok (get g0)"
    and step: "\<And>i j g. in_grid (get g0) i j \<Longrightarrow> grid_inv (get g0) T i j (get g)
                 \<Longrightarrow> grid_inv (get g0) T i (j + 1) (get (F i j g))"
  shows "grid_inv (get g0) T (subdivisionsY (get g0)) 0
           (get (for_loop 0 (subdivisionsY (get g0))
                   (\<lambda>i. for_loop 0 (subdivisionsX (get g0)) (\<lambda>j. F i j)) g0))"
proof (cases "0 \<le> subdivisionsY (get g0)")
  case False
  then have "for_loop 0 (subdivisionsY (get g0))
      (\<lambda>i. for_loop 0 (subdivisionsX (get g0)) (\<lambda>j. F i j)) g0 = g0"
    by (simp add: for_loop_done)
  moreover have "grid_inv (get g0) T (subdivisionsY (get g0)) 0 (get g0)"
    using ok False by (auto simp: grid_inv_def in_grid_def)
  ultimately show ?thesis by simp
next
  case True
  let ?X = "subdivisionsX (get g0)" and ?Y = "subdivisionsY (get g0)"
  have row: "grid_inv (get g0) T (i + 1) 0 (get (for_loop 0 ?X (\<lambda>j. F i j) g))"
    if i: "0 \<le> i" "i < ?Y" and inv: "grid_inv (get g0) T i 0 (get g)" for i g
  proof (cases "0 \<le> ?X")
    case False
    then show ?thesis using inv by (simp add: for_loop_done grid_inv_first_col)
  next
    case True
    have "grid_inv (get g0) T i ?X (get (for_loop 0 ?X (\<lambda>j. F i j) g))"
    proof (rule for_loop_invariant[where P = "\<lambda>j g. grid_inv (get g0) T i j (get g)"])
      show "grid_inv (get g0) T i 0 (get g)" by (rule inv)
      show "0 \<le> ?X" by (rule True)
      fix k t assume "0 \<le> k" "k < ?X" "grid_inv (get g0) T i k (get t)"
      then show "grid_inv (get g0) T i (k + 1) (get (F i k t))"
        using i by (intro step) (simp_all add: in_grid_def)
    qed
    then show ?thesis using True grid_inv_next_row[of "get g0" T i] by (simp add: max_def)
  qed
  show ?thesis
  proof (rule for_loop_invariant[where P = "\<lambda>i g. grid_inv (get g0) T i 0 (get g)"])
    show "grid_inv (get g0) T 0 0 (get g0)" using ok by (rule grid_inv_start)
    show "0 \<le> ?Y" by (rule True)
    fix k t assume "0 \<le> k" "k < ?Y" "grid_inv (get g0) T k 0 (get t)"
    then show "grid_inv (get g0) T (k + 1) 0 (get (for_loop 0 ?X (\<lambda>j. F k j) t))"
      by (rule row)
  qed
qed

lemma net_force_cong:
  assumes "frame s = frame s0" "in_grid s0 i j" "cell s i j = cell s0 i j"
    and "\<And>a c. in_grid s0 a c \<Longrightarrow> position (cell s a c) = position (cell s0 a c)"
  shows "net_force ext s i j = net_force ext s0 i j"
proof -
  note ff = frame_fields[OF assms(1)]
  have up: "0 < i \<Longrightarrow> position (cell s (i - 1) j) = position (cell s0 (i - 1) j)"
    and down: "i < subdivisionsY s0 - 1 \<Longrightarrow> position (cell s (i + 1) j) = position (cell s0 (i + 1) j)"
    and left: "0 < j \<Longrightarrow> position (cell s i (j - 1)) = position (cell s0 i (j - 1))"
    and right: "j < subdivisionsX s0 - 1 \<Longrightarrow> position (cell s i (j + 1)) = position (cell s0 i (j + 1))"
    using assms(2) by (auto intro!: assms(4) simp: in_grid_def)
  show ?thesis
    unfolding net_force_def net_force_from_def Let_def
    using up down left right assms(3)
    by (cases "i = 0") (simp_all add: ff)
qed

lemma apply_forces_inv:
  assumes "grid_ok s0"
  shows "grid_inv s0 (forced ext s0) (subdivisionsY s0) 0 (apply_forces ext s0)"
proof -
  have "grid_inv ((\<lambda>s. s) s0) (forced ext s0) (subdivisionsY ((\<lambda>s. s) s0)) 0
          ((\<lambda>s. s) (for_loop 0 (subdivisionsY ((\<lambda>s. s) s0))
             (\<lambda>i. for_loop 0 (subdivisionsX ((\<lambda>s. s) s0)) (\<lambda>j. cell_forces ext i j)) s0))"
  proof (rule grid_loops)
    show "grid_ok s0" by (rule assms)
  next
    fix i j s
    assume ig: "in_grid s0 i j" and inv: "grid_inv s0 (forced ext s0) i j s"
    have ok: "grid_ok s" and fr: "frame s = frame s0" using inv by (simp_all add: grid_inv_def)
    have ig': "in_grid s i j" using ig in_grid_frame[OF fr] by simp
    have cells: "cell s a c = (if done_before i j a c then forced ext s0 a c else cell s0 a c)"
      if "in_grid s0 a c" for a c using inv that by (simp add: grid_inv_def)
    have self: "cell s i j = cell s0 i j" using cells[OF ig] by (simp add: done_before_def)
    have pos: "position (cell s a c) = position (cell s0 a c)" if "in_grid s0 a c" for a c
      using cells[OF that] by (simp add: forced_def)
    have "net_force ext s i j = net_force ext s0 i j"
      using fr ig self pos by (rule net_force_cong)
    then have "cell_forces ext i j s = set_cell i j (forced ext s0 i j) s"
      using self by (simp add: cell_forces_eq[OF ok ig'] with_force_def forced_def)
    then show "grid_inv s0 (forced ext s0) i (j + 1) (cell_forces ext i j s)"
      using grid_inv_set_cell[OF inv ig] by simp
  qed
  then show ?thesis by (simp add: apply_forces_def)
qed

lemma body_integrate_cell:
  "body (integrate_cell dt i j g) = set_cell i j (IntegrateLinear dt (cell (body g) i j)) (body g)"
  by (simp add: integrate_cell_def Let_def)

lemma integrate_all_inv:
  assumes "grid_ok (body g1)"
  shows "grid_inv (body g1) (integrated dt (body g1)) (subdivisionsY (body g1)) 0
           (body (integrate_all dt g1))"
  unfolding integrate_all_def
proof (rule grid_loops)
  show "grid_ok (body g1)" by (rule assms)
next
  fix i j and g :: globals
  assume ig: "in_grid (body g1) i j"
    and inv: "grid_inv (body g1) (integrated dt (body g1)) i j (body g)"
  have "cell (body g) i j = cell (body g1) i j"
    using inv ig by (simp add: grid_inv_def done_before_def)
  then have "body (integrate_cell dt i j g) = set_cell i j (integrated dt (body g1) i j) (body g)"
    by (simp add: body_integrate_cell integrated_def)
  then show "grid_inv (body g1) (integrated dt (body g1)) i (j + 1) (body (integrate_cell dt i j g))"
    using grid_inv_set_cell[OF inv ig] by simp
qed

lemma apply_forces_grid:
  assumes "grid_ok s0"
  shows "grid_ok (apply_forces ext s0)" "frame (apply_forces ext s0) = frame s0"
    "in_grid s0 a c \<Longrightarrow> cell (apply_forces ext s0) a c = forced ext s0 a c"
  using apply_forces_inv[OF assms, of ext] grid_inv_finish[of s0 "forced ext s0" "apply_forces ext s0" a c]
  by (simp_all add: grid_inv_def)

lemma Step_grid:
  assumes "grid_ok (body g)"
  shows "grid_ok (body (Step dt ext g))" "frame (body (Step dt ext g)) = frame (body g)"
    "in_grid (body g) a c \<Longrightarrow>
       cell (body (Step dt ext g)) a c = IntegrateLinear dt (forced ext (body g) a c)"
proof -
  let ?g1 = "g\<lparr>body := apply_forces ext (body g)\<rparr>"
  have ok1: "grid_ok (body ?g1)" and fr1: "frame (body ?g1) = frame (body g)"
    using apply_forces_grid(1,2)[OF assms] by simp_all
  note inv = integrate_all_inv[OF ok1, of dt]
  show "grid_ok (body (Step dt ext g))" using inv by (simp add: Step_def grid_inv_def)
  show "frame (body (Step dt ext g)) = frame (body g)"
    using inv fr1 by (simp add: Step_def grid_inv_def)
  assume ig: "in_grid (body g) a c"
  then have "in_grid (body ?g1) a c" using in_grid_frame[OF fr1] by simp
  from grid_inv_finish[OF _ this, of "integrated dt (body ?g1)" "body (integrate_all dt ?g1)"] inv
  have "cell (body (Step dt ext g)) a c = integrated dt (body ?g1) a c"
    using in_grid_frame[OF fr1] frame_fields[OF fr1] by (simp add: Step_def)
  then show "cell (body (Step dt ext g)) a c = IntegrateLinear dt (forced ext (body g) a c)"
    using apply_forces_grid(3)[OF assms ig] by (simp add: integrated_def)
qed

lemma float_diff_conv: "(a :: float) - b * d = a + (- b) * d"
  by (cases a; cases b; cases d) simp_all

lemma vec3_spring_damp: "(s :: vec3) - scale_r v d = s + scale_r (- v) d"
  by (simp add: vec3_eq_iff float_diff_conv)

lemma ref_net_force_eq: "ref_net_force ext sb i j = net_force ext sb i j"
  unfolding ref_net_force_def net_force_def net_force_from_def ref_neighbours_def
    ref_neighbour_force_def spring_force_def Let_def
  by (simp add: vec3_spring_damp)

lemma nth_map_upto:
  assumes "0 \<le> a" "a < n"
  shows "map f [0..n - 1] ! nat a = f a"
proof -
  have "nat a < length [0..n - 1]" using assms by simp
  then have "map f [0..n - 1] ! nat a = f ([0..n - 1] ! nat a)" by (rule nth_map)
  moreover have "[0..n - 1] ! nat a = 0 + int (nat a)" using assms by (intro nth_upto) simp
  ultimately show ?thesis using assms by simp
qed

lemma ref_Step_grid:
  shows "grid_ok (ref_Step dt ext sb)" "frame (ref_Step dt ext sb) = frame sb"
    "in_grid sb a c \<Longrightarrow> cell (ref_Step dt ext sb) a c = IntegrateLinear dt (forced ext sb a c)"
proof -
  show "grid_ok (ref_Step dt ext sb)"
    by (simp add: ref_Step_def ref_integrate_def ref_accumulate_def grid_ok_def list_all_length)
  show "frame (ref_Step dt ext sb) = frame sb"
    by (simp add: ref_Step_def ref_integrate_def ref_accumulate_def frame_def)
  assume "in_grid sb a c"
  then have a: "0 \<le> a" "a < subdivisionsY sb" and c: "0 \<le> c" "c < subdivisionsX sb"
    by (simp_all add: in_grid_def)
  have "cell (ref_accumulate ext sb) a c = forced ext sb a c"
    by (simp add: ref_accumulate_def cell_def nth_map_upto[OF a] nth_map_upto[OF c]
        forced_def ref_net_force_eq)
  moreover have "nat a < length (bodies (ref_accumulate ext sb))"
    "nat c < length (bodies (ref_accumulate ext sb) ! nat a)"
    using a c by (simp_all add: ref_accumulate_def nth_map_upto[OF a])
  ultimately show "cell (ref_Step dt ext sb) a c = IntegrateLinear dt (forced ext sb a c)"
    by (simp add: ref_Step_def ref_integrate_def cell_def)
qed

lemma forced_fields [simp]:
  "position (forced ext sb a c) = position (cell sb a c)"
  "velocity (forced ext sb a c) = velocity (cell sb a c)"
  "inverseMass (forced ext sb a c) = inverseMass (cell sb a c)"
  "netImpulse (forced ext sb a c) = netImpulse (cell sb a c)"
  "netForce (forced ext sb a c) = net_force ext sb a c"
  by (simp_all add: forced_def)

lemma vec3_add_zero [simp]: "(v :: vec3) + 0 = v"
proof -
  have "a + Finite 0 = a" for a :: float by (cases a) simp_all
  then show ?thesis by (simp add: vec3_eq_iff)
qed

lemma net_force_row_0:
  "net_force ext sb 0 j = net_force 0 sb 0 j + ext"
  by (simp add: net_force_def net_force_from_def Let_def)

lemma net_force_other_rows:
  "i \<noteq> 0 \<Longrightarrow> net_force ext sb i j = net_force ext' sb i j"
  by (simp add: net_force_def net_force_from_def Let_def)

lemma float_neg_mult: "- (a :: float) * b = - (a * b)" "a * (- b) = - (a * b)"
  by (cases a; cases b; simp)+

lemma float_diff_swap_sq: "((a :: float) - b) * (a - b) = (b - a) * (b - a)"
  by (cases a; cases b) (simp_all add: algebra_simps)

lemma float_diff_neg: "(a :: float) - b = - (b - a)"
  by (cases a; cases b) simp_all

lemma dot_swap: "dot (a - b) (a - b) = dot (b - a) (b - a)"
  by (simp add: dot_def float_diff_swap_sq)

lemma spring_force_opposite:
  "spring_force k rest b a = - spring_force k rest a b"
  unfolding spring_force_def Let_def normalize_def vlength_def dot_swap[of a b]
  by (simp add: vec3_eq_iff float_neg_mult float_diff_neg[of "vx a" "vx b"]
      float_diff_neg[of "vy a" "vy b"] float_diff_neg[of "vz a" "vz b"])

lemma float_neg_sq: "(- a :: float) * (- a) = a * a"
  by (cases a) simp_all

lemma vlength_uminus: "vlength (- v) = vlength v"
  by (simp add: vlength_def dot_def float_neg_sq)

section \<open>The scenario, evaluated\<close>

lemma scenario_body_ctor:
  "SoftBody_ctor (Finite 1) (Finite 1) 2 2 (Finite 25) (Finite (1/2)) =
     Inr \<lparr>subdivisionsX = 2, subdivisionsY = 2, restHeight = Finite (1/2),
          restWidth = Finite (1/2), numRigidBodies = 4,
          bodies = [[rest_body (- 1/2) (- 1/2), rest_body 0 (- 1/2)],
                    [rest_body (- 1/2) 0, rest_body 0 0]],
          coefficient = Finite 25, dampening = Finite (1/2)\<rparr>"
  by (simp add: SoftBody_ctor_def Let_def for_loop.simps set_cell_def RigidBody_ctor_def
      RigidBody_default_def float_of_int_def vec3_all_def rest_body_def eval_nat_numeral)

lemma scenario_body_eq:
  "scenario_body =
     \<lparr>subdivisionsX = 2, subdivisionsY = 2, restHeight = Finite (1/2),
      restWidth = Finite (1/2), numRigidBodies = 4,
      bodies = [[rest_body (- 1/2) (- 1/2), rest_body 0 (- 1/2)],
                [rest_body (- 1/2) 0, rest_body 0 0]],
      coefficient = Finite 25, dampening = Finite (1/2)\<rparr>"
  by (simp add: scenario_body_def scenario_body_ctor)

lemma scenario_ok: "state_ok scenario"
  by (simp add: state_ok_def grid_ok_def lattice_ok_def scenario_def scenario_body_eq)

lemma scenario_in_grid:
  "in_grid (body scenario) 0 0" "in_grid (body scenario) 0 1"
  "in_grid (body scenario) 1 0" "in_grid (body scenario) 1 1"
  by (simp_all add: in_grid_def scenario_def scenario_body_eq)

lemma scenario_cells:
  "cell scenario_body 0 0 = rest_body (- 1/2) (- 1/2)" "cell scenario_body 0 1 = rest_body 0 (- 1/2)"
  "cell scenario_body 1 0 = rest_body (- 1/2) 0" "cell scenario_body 1 1 = rest_body 0 0"
  by (simp_all add: cell_def scenario_body_eq)

section \<open>Evaluation of the examples\<close>



lemma vec3_ctor_simps:
  "Vec3 a b c + Vec3 a' b' c' = Vec3 (a + a') (b + b') (c + c')"
  "Vec3 a b c - Vec3 a' b' c' = Vec3 (a - a') (b - b') (c - c')"
  "- Vec3 a b c = Vec3 (- a) (- b) (- c)"
  "scale s (Vec3 a b c) = Vec3 (s * a) (s * b) (s * c)"
  "scale_r (Vec3 a b c) s = Vec3 (a * s) (b * s) (c * s)"
  "(0 :: vec3) = Vec3 (Finite 0) (Finite 0) (Finite 0)"
  by (simp_all add: vec3_eq_iff)


lemma sqrt_quarter [simp]: "sqrt (1/4) = 1/2"
  by (simp add: real_sqrt_divide)

lemma moving_body_eq:
  "moving_body =
     \<lparr>subdivisionsX = 2, subdivisionsY = 2, restHeight = Finite (1/2),
      restWidth = Finite (1/2), numRigidBodies = 4,
      bodies = [[(rest_body (- 1/2) (- 1/2))\<lparr>velocity := Vec3 (Finite 1) (Finite 0) (Finite 0)\<rparr>,
                 rest_body 0 (- 1/2)],
                [rest_body (- 1/2) 0, rest_body 0 0]],
      coefficient = Finite 25, dampening = Finite (1/2)\<rparr>"
  by (simp add: moving_body_def set_cell_def cell_def scenario_body_eq)

lemma moving_ok: "grid_ok moving_body" "in_grid moving_body 0 0"
  by (simp_all add: grid_ok_def in_grid_def moving_body_eq)

lemma moving_cells:
  "cell moving_body 0 0 = (rest_body (- 1/2) (- 1/2))\<lparr>velocity := Vec3 (Finite 1) (Finite 0) (Finite 0)\<rparr>"
  "cell moving_body 0 1 = rest_body 0 (- 1/2)"
  "cell moving_body 1 0 = rest_body (- 1/2) 0" "cell moving_body 1 1 = rest_body 0 0"
  by (simp_all add: cell_def moving_body_eq)

lemma moving_fields:
  "subdivisionsX moving_body = 2" "subdivisionsY moving_body = 2"
  "restHeight moving_body = Finite (1/2)" "restWidth moving_body = Finite (1/2)"
  "coefficient moving_body = Finite 25" "dampening moving_body = Finite (1/2)"
  by (simp_all add: moving_body_eq)

lemma moving_springs:
  "spring_force (coefficient moving_body) (restHeight moving_body)
     (position (cell moving_body 0 0)) (position (cell moving_body 1 0)) = 0"
  "spring_force (coefficient moving_body) (restWidth moving_body)
     (position (cell moving_body 0 0)) (position (cell moving_body 0 1)) = 0"
  by (simp_all add: moving_cells rest_body_def spring_force_def Let_def normalize_def vlength_def
      dot_def vec3_eq_iff moving_fields FLT_OVERFLOW_def FLT_UNDERFLOW_def)

lemmas vec3_eval = spring_force_def Let_def normalize_def vlength_def dot_def vec3_ctor_simps
  FLT_OVERFLOW_def FLT_UNDERFLOW_def

lemma IntegrateLinear_rest:
  "d * d < FLT_OVERFLOW \<Longrightarrow> IntegrateLinear (Finite d) (rest_body a b) = rest_body a b"
  by (simp add: IntegrateLinear_def rest_body_def vec3_ctor_simps Let_def vec3_all_def)

lemma scenario_fields:
  "subdivisionsX scenario_body = 2" "subdivisionsY scenario_body = 2"
  "restHeight scenario_body = Finite (1/2)" "restWidth scenario_body = Finite (1/2)"
  "coefficient scenario_body = Finite 25" "dampening scenario_body = Finite (1/2)"
  by (simp_all add: scenario_body_eq)

lemma scenario_net_force:
  "net_force 0 scenario_body 0 0 = 0" "net_force 0 scenario_body 0 1 = 0"
  "net_force 0 scenario_body 1 0 = 0" "net_force 0 scenario_body 1 1 = 0"
  by (simp_all add: net_force_def net_force_from_def scenario_fields scenario_cells rest_body_def
      vec3_eval)

lemma scenario_forced:
  "forced 0 scenario_body 0 0 = rest_body (- 1/2) (- 1/2)"
  "forced 0 scenario_body 0 1 = rest_body 0 (- 1/2)"
  "forced 0 scenario_body 1 0 = rest_body (- 1/2) 0"
  "forced 0 scenario_body 1 1 = rest_body 0 0"
  by (simp_all add: forced_def scenario_net_force scenario_cells)
     (simp_all add: rest_body_def vec3_ctor_simps)

lemma scenario_grid_cases:
  assumes "in_grid scenario_body a c"
  shows "(a = 0 \<or> a = 1) \<and> (c = 0 \<or> c = 1)"
  using assms by (auto simp: in_grid_def scenario_fields)

lemma scenario_step_body: "body (Step physicsStep 0 scenario) = scenario_body"
proof (rule grid_eqI)
  have ok: "grid_ok (body scenario)" using scenario_ok by (simp add: state_ok_def)
  have b: "body scenario = scenario_body" by (simp add: scenario_def)
  show "grid_ok (body (Step physicsStep 0 scenario))" using ok by (rule Step_grid(1))
  show "grid_ok scenario_body" using ok b by simp
  show fr: "frame (body (Step physicsStep 0 scenario)) = frame scenario_body"
    using Step_grid(2)[OF ok] b by simp
  fix a c assume "in_grid (body (Step physicsStep 0 scenario)) a c"
  then have ig: "in_grid scenario_body a c" using in_grid_frame[OF fr] by simp
  then have "cell (body (Step physicsStep 0 scenario)) a c
      = IntegrateLinear physicsStep (forced 0 scenario_body a c)"
    using Step_grid(3)[OF ok, of a c physicsStep 0] b by simp
  also have "\<dots> = cell scenario_body a c"
    using scenario_grid_cases[OF ig]
    by (auto simp: scenario_forced scenario_cells physicsStep_def IntegrateLinear_rest
        FLT_OVERFLOW_def)
  finally show "cell (body (Step physicsStep 0 scenario)) a c = cell scenario_body a c" .
qed

lemma wide_body_ctor:
  "SoftBody_ctor (Finite 3) (Finite 2) 3 2 (Finite 25) (Finite (1/2)) =
     Inr \<lparr>subdivisionsX = 3, subdivisionsY = 2, restHeight = Finite 1, restWidth = Finite 1,
          numRigidBodies = 6,
          bodies = [[rest_body (- 3/2) (- 1), rest_body (- 1/2) (- 1), rest_body (1/2) (- 1)],
                    [rest_body (- 3/2) 0, rest_body (- 1/2) 0, rest_body (1/2) 0]],
          coefficient = Finite 25, dampening = Finite (1/2)\<rparr>"
  by (simp add: SoftBody_ctor_def Let_def for_loop.simps set_cell_def RigidBody_ctor_def
      RigidBody_default_def float_of_int_def vec3_all_def rest_body_def eval_nat_numeral)

lemma wide_body_eq:
  "wide_body =
     \<lparr>subdivisionsX = 3, subdivisionsY = 2, restHeight = Finite 1, restWidth = Finite 1,
      numRigidBodies = 6,
      bodies = [[rest_body (- 3/2) (- 1), rest_body (- 1/2) (- 1), rest_body (1/2) (- 1)],
                [rest_body (- 3/2) 0, rest_body (- 1/2) 0, rest_body (1/2) 0]],
      coefficient = Finite 25, dampening = Finite (1/2)\<rparr>"
  by (simp add: wide_body_def wide_body_ctor)

lemma wide_fields:
  "subdivisionsX wide_body = 3" "subdivisionsY wide_body = 2"
  "restHeight wide_body = Finite 1" "restWidth wide_body = Finite 1"
  "coefficient wide_body = Finite 25" "dampening wide_body = Finite (1/2)"
  by (simp_all add: wide_body_eq)

lemma wide_cells:
  "cell wide_body 0 0 = rest_body (- 3/2) (- 1)" "cell wide_body 0 1 = rest_body (- 1/2) (- 1)"
  "cell wide_body 0 2 = rest_body (1/2) (- 1)"
  "cell wide_body 1 0 = rest_body (- 3/2) 0" "cell wide_body 1 1 = rest_body (- 1/2) 0"
  "cell wide_body 1 2 = rest_body (1/2) 0"
  by (simp_all add: cell_def wide_body_eq)

lemma wide_ok: "state_ok wide"
  by (simp add: state_ok_def grid_ok_def lattice_ok_def wide_def wide_body_eq)

lemma wide_net_force:
  "net_force 0 wide_body 0 0 = 0" "net_force 0 wide_body 0 1 = 0" "net_force 0 wide_body 0 2 = 0"
  "net_force 0 wide_body 1 0 = 0" "net_force 0 wide_body 1 1 = 0" "net_force 0 wide_body 1 2 = 0"
  by (simp_all add: net_force_def net_force_from_def wide_fields wide_cells rest_body_def
      vec3_eval)

lemma wide_grid_cases:
  assumes "in_grid wide_body a c"
  shows "(a = 0 \<or> a = 1) \<and> (c = 0 \<or> c = 1 \<or> c = 2)"
  using assms by (auto simp: in_grid_def wide_fields)

lemma wide_apply_forces: "apply_forces 0 wide_body = wide_body"
proof (rule grid_eqI)
  have ok: "grid_ok wide_body" using wide_ok by (simp add: state_ok_def wide_def)
  show "grid_ok (apply_forces 0 wide_body)" using ok by (rule apply_forces_grid(1))
  show "grid_ok wide_body" by (rule ok)
  show fr: "frame (apply_forces 0 wide_body) = frame wide_body"
    using ok by (rule apply_forces_grid(2))
  fix a c assume "in_grid (apply_forces 0 wide_body) a c"
  then have ig: "in_grid wide_body a c" using in_grid_frame[OF fr] by simp
  have "netForce (cell wide_body a c) = 0"
    using wide_grid_cases[OF ig] by (auto simp: wide_cells rest_body_def vec3_ctor_simps)
  moreover have "net_force 0 wide_body a c = 0"
    using wide_grid_cases[OF ig] by (auto simp: wide_net_force)
  ultimately have "forced 0 wide_body a c = cell wide_body a c"
    by (simp add: forced_def)
  then show "cell (apply_forces 0 wide_body) a c = cell wide_body a c"
    using apply_forces_grid(3)[OF ok ig, of 0] by simp
qed

lemma wide_integrate:
  "vertices (lattice (integrate_all physicsStep wide)) =
     [blank_vertex\<lparr>vertex_x := Finite (- (3/2)), vertex_y := Finite (- 1), vertex_z := Finite 0\<rparr>,
      blank_vertex\<lparr>vertex_x := Finite (- (1/2)), vertex_y := Finite (- 1), vertex_z := Finite 0\<rparr>,
      blank_vertex\<lparr>vertex_x := Finite (- (3/2)), vertex_y := Finite 0, vertex_z := Finite 0\<rparr>,
      blank_vertex\<lparr>vertex_x := Finite (- (1/2)), vertex_y := Finite 0, vertex_z := Finite 0\<rparr>,
      blank_vertex\<lparr>vertex_x := Finite (1/2), vertex_y := Finite 0, vertex_z := Finite 0\<rparr>,
      blank_vertex]"
  "body (integrate_all physicsStep wide) = wide_body"
  by (simp_all add: integrate_all_def wide_def wide_fields for_loop.simps integrate_cell_def Let_def)
     (simp_all add: wide_body_eq cell_def set_cell_def physicsStep_def IntegrateLinear_rest
        FLT_OVERFLOW_def
        eval_nat_numeral, simp add: rest_body_def)

section \<open>Numbers inside the range of a float\<close>

lemma is_finite_simps [simp]: "is_finite (Finite u)" "\<not> is_finite NaN"
  by (simp_all add: is_finite_def)

lemma is_finiteE:
  assumes "is_finite a" obtains u where "a = Finite u"
  using assms by (cases a) simp_all

lemma moderate_simps [simp]: "moderate (Finite u) \<longleftrightarrow> \<bar>u\<bar> \<le> 2 ^ 20" "\<not> moderate NaN"
  by (simp_all add: moderate_def)

lemma in_range_simps [simp]: "in_range (Finite u) \<longleftrightarrow> \<bar>u\<bar> < FLT_OVERFLOW" "\<not> in_range NaN"
  by (simp_all add: in_range_def)

lemma moderateE:
  assumes "moderate a" obtains u where "a = Finite u" "\<bar>u\<bar> \<le> 2 ^ 20"
  using assms by (cases a) simp_all

lemma moderate_is_finite: "moderate a \<Longrightarrow> is_finite a"
  by (erule moderateE) simp

lemma moderate_vecE:
  assumes "moderate_vec v"
  obtains a b c where "v = Vec3 (Finite a) (Finite b) (Finite c)"
    "\<bar>a\<bar> \<le> 2 ^ 20" "\<bar>b\<bar> \<le> 2 ^ 20" "\<bar>c\<bar> \<le> 2 ^ 20"
  using assms by (cases v) (auto simp: moderate_vec_def elim!: moderateE)

lemma square_bound:
  fixes x :: real
  assumes "\<bar>x\<bar> \<le> b"
  shows "x * x \<le> b * b"
proof -
  have "x * x = \<bar>x\<bar> * \<bar>x\<bar>" by simp
  also have "\<dots> \<le> b * b" using assms by (intro mult_mono) simp_all
  finally show ?thesis .
qed

lemma product_bound:
  fixes x y :: real
  assumes "\<bar>x\<bar> \<le> a" "\<bar>y\<bar> \<le> b"
  shows "\<bar>x * y\<bar> \<le> a * b"
proof -
  have "\<bar>x * y\<bar> = \<bar>x\<bar> * \<bar>y\<bar>" by (simp add: abs_mult)
  also have "\<dots> \<le> a * b" using assms by (intro mult_mono) simp_all
  finally show ?thesis .
qed

lemma difference_square_bound:
  fixes a a' :: real
  assumes "\<bar>a\<bar> \<le> 2 ^ 20" "\<bar>a'\<bar> \<le> 2 ^ 20"
  shows "(a' - a) * (a' - a) \<le> 2 ^ 42"
proof -
  have "\<bar>a' - a\<bar> \<le> 2 ^ 21" using assms by simp
  then have "(a' - a) * (a' - a) \<le> 2 ^ 21 * 2 ^ 21" by (rule square_bound)
  then show ?thesis by simp
qed

text \<open>The dot product of the displacement of two moderate positions that are apart.\<close>

lemma dot_apart:
  assumes "moderate_vec p" "moderate_vec q" "apart p q"
  obtains u where "dot (q - p) (q - p) = Finite u" "1 / 2 ^ 40 \<le> u" "u \<le> 3 * 2 ^ 42"
proof -
  obtain a b c where p: "p = Vec3 (Finite a) (Finite b) (Finite c)"
    and pb: "\<bar>a\<bar> \<le> 2 ^ 20" "\<bar>b\<bar> \<le> 2 ^ 20" "\<bar>c\<bar> \<le> 2 ^ 20"
    using assms(1) by (rule moderate_vecE)
  obtain a' b' c' where q: "q = Vec3 (Finite a') (Finite b') (Finite c')"
    and qb: "\<bar>a'\<bar> \<le> 2 ^ 20" "\<bar>b'\<bar> \<le> 2 ^ 20" "\<bar>c'\<bar> \<le> 2 ^ 20"
    using assms(2) by (rule moderate_vecE)
  let ?u = "(a' - a) * (a' - a) + (b' - b) * (b' - b) + (c' - c) * (c' - c)"
  have d: "dot (q - p) (q - p) = Finite ?u" by (simp add: p q dot_def)
  have "1 / 2 ^ 40 \<le> ?u" using assms(3) unfolding apart_def d by simp
  moreover have "?u \<le> 3 * 2 ^ 42"
    using difference_square_bound[OF pb(1) qb(1)] difference_square_bound[OF pb(2) qb(2)]
      difference_square_bound[OF pb(3) qb(3)] by simp
  ultimately show ?thesis using d that by blast
qed

lemma dot_in_range:
  fixes u :: real
  assumes "1 / 2 ^ 40 \<le> u" "u \<le> 3 * 2 ^ 42"
  shows "0 < u" "\<not> u < 0" "\<not> u < FLT_UNDERFLOW" "\<not> FLT_OVERFLOW \<le> u"
proof -
  have "(0 :: real) < 1 / 2 ^ 40" by simp
  then show "0 < u" "\<not> u < 0" using assms(1) by linarith+
  have "FLT_UNDERFLOW \<le> 1 / 2 ^ 40" by (simp add: FLT_UNDERFLOW_def)
  then show "\<not> u < FLT_UNDERFLOW" using assms(1) by linarith
  have "3 * 2 ^ 42 < FLT_OVERFLOW" by (simp add: FLT_OVERFLOW_def)
  then show "\<not> FLT_OVERFLOW \<le> u" using assms(2) by linarith
qed

lemma inversesqrt_in_range:
  assumes "1 / 2 ^ 40 \<le> u" "u \<le> 3 * 2 ^ 42"
  shows "inversesqrt (Finite u) = Finite (1 / sqrt u)" "fsqrt (Finite u) = Finite (sqrt u)"
  using dot_in_range[OF assms] by simp_all

text \<open>The spring force between two positions whose displacement has a dot product with
  itself inside the range: the displacement scaled by a number.\<close>

lemma spring_force_in_range:
  assumes "dot (q - p) (q - p) = Finite u" "1 / 2 ^ 40 \<le> u" "u \<le> 3 * 2 ^ 42"
  shows "spring_force (Finite k) (Finite r) p q
     = scale (Finite (k * (sqrt u - r))) (scale_r (q - p) (Finite (1 / sqrt u)))"
proof -
  have "normalize (q - p) = scale_r (q - p) (Finite (1 / sqrt u))"
    by (simp add: normalize_def assms(1) dot_in_range[OF assms(2,3)])
  moreover have "vlength (q - p) = Finite (sqrt u)"
    by (simp add: vlength_def assms(1) dot_in_range[OF assms(2,3)])
  ultimately show ?thesis
    by (simp add: spring_force_def Let_def vec3_eq_iff)
qed

text \<open>The numbers that \<open>IntegrateLinear\<close> forms of moderate numbers.\<close>

lemma powf_2_moderate: "moderate d \<Longrightarrow> powf_2 d = d * d"
proof (erule moderateE)
  fix u :: real assume d: "d = Finite u" and b: "\<bar>u\<bar> \<le> 2 ^ 20"
  have "u * u \<le> 2 ^ 20 * 2 ^ 20" using b by (rule square_bound)
  moreover have "(2 :: real) ^ 20 * 2 ^ 20 < FLT_OVERFLOW" by (simp add: FLT_OVERFLOW_def)
  ultimately have "\<not> FLT_OVERFLOW \<le> u * u" by linarith
  then show ?thesis by (simp add: d)
qed

lemma step_bound:
  fixes p v m f d i :: real
  assumes "\<bar>p\<bar> \<le> 2 ^ 20" "\<bar>v\<bar> \<le> 2 ^ 20" "\<bar>m\<bar> \<le> 2 ^ 20" "\<bar>f\<bar> \<le> 2 ^ 20" "\<bar>d\<bar> \<le> 2 ^ 20"
    "\<bar>i\<bar> \<le> 2 ^ 20"
  shows "\<bar>p + (d * v + 1 / 2 * (m * f) * (d * d))\<bar> < FLT_OVERFLOW"
    and "\<bar>v + (d * (m * f) + m * i)\<bar> < FLT_OVERFLOW"
proof -
  define x where "x = d * v"
  define a where "a = m * f"
  define y where "y = a * (d * d)"
  define z where "z = d * a"
  define w where "w = m * i"
  have x: "\<bar>x\<bar> \<le> 2 ^ 20 * 2 ^ 20" unfolding x_def using assms(5,2) by (rule product_bound)
  have a: "\<bar>a\<bar> \<le> 2 ^ 20 * 2 ^ 20" unfolding a_def using assms(3,4) by (rule product_bound)
  have dd: "\<bar>d * d\<bar> \<le> 2 ^ 20 * 2 ^ 20" using assms(5,5) by (rule product_bound)
  have y: "\<bar>y\<bar> \<le> 2 ^ 20 * 2 ^ 20 * (2 ^ 20 * 2 ^ 20)" unfolding y_def using a dd by (rule product_bound)
  have z: "\<bar>z\<bar> \<le> 2 ^ 20 * (2 ^ 20 * 2 ^ 20)" unfolding z_def using assms(5) a by (rule product_bound)
  have w: "\<bar>w\<bar> \<le> 2 ^ 20 * 2 ^ 20" unfolding w_def using assms(3,6) by (rule product_bound)
  have big: "(2 :: real) ^ 20 + 2 ^ 20 * 2 ^ 20 + 2 ^ 20 * 2 ^ 20 * (2 ^ 20 * 2 ^ 20) < FLT_OVERFLOW"
    "(2 :: real) ^ 20 + 2 ^ 20 * (2 ^ 20 * 2 ^ 20) + 2 ^ 20 * 2 ^ 20 < FLT_OVERFLOW"
    by (simp_all add: FLT_OVERFLOW_def)
  have "\<bar>p + (x + 1 / 2 * y)\<bar> < FLT_OVERFLOW" using assms(1) x y big(1) by linarith
  then show "\<bar>p + (d * v + 1 / 2 * (m * f) * (d * d))\<bar> < FLT_OVERFLOW"
    by (simp add: x_def y_def a_def)
  have "\<bar>v + (z + w)\<bar> < FLT_OVERFLOW" using assms(2) z w big(2) by linarith
  then show "\<bar>v + (d * (m * f) + m * i)\<bar> < FLT_OVERFLOW" by (simp add: z_def a_def w_def)
qed

lemma float_step_in_range:
  assumes "moderate p" "moderate v" "moderate m" "moderate f" "moderate d" "moderate i"
  shows "in_range (p + (d * v + Finite (1/2) * (m * f) * (d * d)))"
    and "in_range (v + (d * (m * f) + m * i))"
proof -
  obtain p' where p: "p = Finite p'" "\<bar>p'\<bar> \<le> 2 ^ 20" using assms(1) by (rule moderateE)
  obtain v' where v: "v = Finite v'" "\<bar>v'\<bar> \<le> 2 ^ 20" using assms(2) by (rule moderateE)
  obtain m' where m: "m = Finite m'" "\<bar>m'\<bar> \<le> 2 ^ 20" using assms(3) by (rule moderateE)
  obtain f' where f: "f = Finite f'" "\<bar>f'\<bar> \<le> 2 ^ 20" using assms(4) by (rule moderateE)
  obtain d' where d: "d = Finite d'" "\<bar>d'\<bar> \<le> 2 ^ 20" using assms(5) by (rule moderateE)
  obtain i' where i: "i = Finite i'" "\<bar>i'\<bar> \<le> 2 ^ 20" using assms(6) by (rule moderateE)
  note b = step_bound[OF p(2) v(2) m(2) f(2) d(2) i(2)]
  show "in_range (p + (d * v + Finite (1/2) * (m * f) * (d * d)))"
    using b(1) by (simp add: p v m f d)
  show "in_range (v + (d * (m * f) + m * i))"
    using b(2) by (simp add: p v m f d i)
qed

lemma IntegrateLinear_in_range:
  assumes "moderate dt" "tame_body rb"
  shows "in_range_vec (velocity (IntegrateLinear dt rb))"
    and "in_range_vec (position (IntegrateLinear dt rb))"
proof -
  have rb: "moderate (inverseMass rb)"
    "moderate (vx (position rb))" "moderate (vy (position rb))" "moderate (vz (position rb))"
    "moderate (vx (velocity rb))" "moderate (vy (velocity rb))" "moderate (vz (velocity rb))"
    "moderate (vx (netForce rb))" "moderate (vy (netForce rb))" "moderate (vz (netForce rb))"
    "moderate (vx (netImpulse rb))" "moderate (vy (netImpulse rb))" "moderate (vz (netImpulse rb))"
    using assms(2) by (simp_all add: tame_body_def moderate_vec_def)
  show "in_range_vec (position (IntegrateLinear dt rb))"
    using float_step_in_range(1)[OF rb(2) rb(5) rb(1) rb(8) assms(1) rb(11)]
      float_step_in_range(1)[OF rb(3) rb(6) rb(1) rb(9) assms(1) rb(11)]
      float_step_in_range(1)[OF rb(4) rb(7) rb(1) rb(10) assms(1) rb(11)]
    by (simp add: in_range_vec_def powf_2_moderate[OF assms(1)] del: powf_2_simps)
  show "in_range_vec (velocity (IntegrateLinear dt rb))"
    using float_step_in_range(2)[OF rb(2) rb(5) rb(1) rb(8) assms(1) rb(11)]
      float_step_in_range(2)[OF rb(3) rb(6) rb(1) rb(9) assms(1) rb(12)]
      float_step_in_range(2)[OF rb(4) rb(7) rb(1) rb(10) assms(1) rb(13)]
    by (simp add: in_range_vec_def)
qed

text \<open>The spring force between two moderate positions that are apart, for a moderate
  coefficient and rest length: every component is a number of magnitude at most \<open>2\<^sup>4\<^sup>3\<close>,
  and its length is in range.\<close>

lemma component_ratio_bound:
  fixes x u :: real
  assumes "x * x \<le> u" "0 < u"
  shows "\<bar>x * (1 / sqrt u)\<bar> \<le> 1"
proof -
  have "\<bar>x\<bar> = sqrt (x * x)" by simp
  also have "\<dots> \<le> sqrt u" using assms(1) by (rule real_sqrt_le_mono)
  finally have "\<bar>x\<bar> \<le> sqrt u" .
  moreover have "0 < sqrt u" using assms(2) by simp
  ultimately have "\<bar>x\<bar> / sqrt u \<le> 1" by simp
  then show ?thesis using assms(2) by (simp add: abs_mult)
qed

lemma sqrt_bound:
  fixes u b :: real
  assumes "u \<le> b * b" "0 \<le> b"
  shows "sqrt u \<le> b"
proof -
  have "sqrt u \<le> sqrt (b * b)" using assms(1) by (rule real_sqrt_le_mono)
  then show ?thesis using assms(2) by simp
qed

lemma spring_force_bounded:
  assumes "moderate k" "moderate rest" "moderate_vec p" "moderate_vec q" "apart p q"
  obtains x y z where "spring_force k rest p q = Vec3 (Finite x) (Finite y) (Finite z)"
    "\<bar>x\<bar> \<le> 2 ^ 43" "\<bar>y\<bar> \<le> 2 ^ 43" "\<bar>z\<bar> \<le> 2 ^ 43"
proof -
  obtain k' where k: "k = Finite k'" "\<bar>k'\<bar> \<le> 2 ^ 20" using assms(1) by (rule moderateE)
  obtain r' where r: "rest = Finite r'" "\<bar>r'\<bar> \<le> 2 ^ 20" using assms(2) by (rule moderateE)
  obtain a b c where p: "p = Vec3 (Finite a) (Finite b) (Finite c)"
    and pb: "\<bar>a\<bar> \<le> 2 ^ 20" "\<bar>b\<bar> \<le> 2 ^ 20" "\<bar>c\<bar> \<le> 2 ^ 20"
    using assms(3) by (rule moderate_vecE)
  obtain a' b' c' where q: "q = Vec3 (Finite a') (Finite b') (Finite c')"
    and qb: "\<bar>a'\<bar> \<le> 2 ^ 20" "\<bar>b'\<bar> \<le> 2 ^ 20" "\<bar>c'\<bar> \<le> 2 ^ 20"
    using assms(4) by (rule moderate_vecE)
  define dx where "dx = a' - a"
  define dy where "dy = b' - b"
  define dz where "dz = c' - c"
  define u where "u = dx * dx + dy * dy + dz * dz"
  have d: "dot (q - p) (q - p) = Finite u" by (simp add: p q dot_def u_def dx_def dy_def dz_def)
  have lo: "1 / 2 ^ 40 \<le> u" using assms(5) unfolding apart_def d by simp
  have hi: "u \<le> 3 * 2 ^ 42"
    using difference_square_bound[OF pb(1) qb(1)] difference_square_bound[OF pb(2) qb(2)]
      difference_square_bound[OF pb(3) qb(3)] by (simp add: u_def dx_def dy_def dz_def)
  note pos = dot_in_range(1)[OF lo hi]
  have "u \<le> 2 ^ 22 * 2 ^ 22" using hi by simp
  then have "sqrt u \<le> 2 ^ 22" by (rule sqrt_bound) simp
  moreover have "0 \<le> sqrt u" using pos by simp
  moreover have "(2 :: real) ^ 22 + 2 ^ 20 \<le> 2 ^ 23" by simp
  ultimately have "\<bar>sqrt u - r'\<bar> \<le> 2 ^ 23" using r(2) by linarith
  with k(2) have c: "\<bar>k' * (sqrt u - r')\<bar> \<le> 2 ^ 20 * 2 ^ 23" by (rule product_bound)
  have sq: "0 \<le> dx * dx" "0 \<le> dy * dy" "0 \<le> dz * dz" by simp_all
  have "dx * dx \<le> u" "dy * dy \<le> u" "dz * dz \<le> u" using sq unfolding u_def by linarith+
  then have n: "\<bar>dx * (1 / sqrt u)\<bar> \<le> 1" "\<bar>dy * (1 / sqrt u)\<bar> \<le> 1" "\<bar>dz * (1 / sqrt u)\<bar> \<le> 1"
    using pos by (simp_all only: component_ratio_bound)
  have "\<bar>k' * (sqrt u - r') * (dx * (1 / sqrt u))\<bar> \<le> 2 ^ 20 * 2 ^ 23 * 1"
    "\<bar>k' * (sqrt u - r') * (dy * (1 / sqrt u))\<bar> \<le> 2 ^ 20 * 2 ^ 23 * 1"
    "\<bar>k' * (sqrt u - r') * (dz * (1 / sqrt u))\<bar> \<le> 2 ^ 20 * 2 ^ 23 * 1"
    using c n by (simp_all only: product_bound)
  then have b: "\<bar>k' * (sqrt u - r') * (dx * (1 / sqrt u))\<bar> \<le> 2 ^ 43"
    "\<bar>k' * (sqrt u - r') * (dy * (1 / sqrt u))\<bar> \<le> 2 ^ 43"
    "\<bar>k' * (sqrt u - r') * (dz * (1 / sqrt u))\<bar> \<le> 2 ^ 43"
    by simp_all
  have "spring_force k rest p q
      = Vec3 (Finite (k' * (sqrt u - r') * (dx * (1 / sqrt u))))
             (Finite (k' * (sqrt u - r') * (dy * (1 / sqrt u))))
             (Finite (k' * (sqrt u - r') * (dz * (1 / sqrt u))))"
    unfolding k r spring_force_in_range[OF d lo hi]
    by (simp add: p q vec3_eq_iff dx_def dy_def dz_def)
  then show ?thesis using b that by blast
qed

lemma vlength_bounded:
  assumes "\<bar>x\<bar> \<le> 2 ^ 43" "\<bar>y\<bar> \<le> 2 ^ 43" "\<bar>z\<bar> \<le> 2 ^ 43"
  shows "in_range (vlength (Vec3 (Finite x) (Finite y) (Finite z)))"
proof -
  define s where "s = x * x + y * y + z * z"
  have "x * x \<le> 2 ^ 43 * 2 ^ 43" "y * y \<le> 2 ^ 43 * 2 ^ 43" "z * z \<le> 2 ^ 43 * 2 ^ 43"
    using assms by (simp_all only: square_bound)
  then have hi: "s \<le> 2 ^ 44 * 2 ^ 44" unfolding s_def by simp
  have lo: "0 \<le> s" unfolding s_def by simp
  have "sqrt s \<le> 2 ^ 44" using hi by (rule sqrt_bound) simp
  moreover have "(2 :: real) ^ 44 < FLT_OVERFLOW" by (simp add: FLT_OVERFLOW_def)
  ultimately have "\<bar>sqrt s\<bar> < FLT_OVERFLOW" using lo by simp
  moreover have "(2 :: real) ^ 44 * 2 ^ 44 < FLT_OVERFLOW" by (simp add: FLT_OVERFLOW_def)
  then have "\<not> FLT_OVERFLOW \<le> s" using hi by linarith
  ultimately have "in_range (fsqrt (Finite s))" using lo FLT_positive(2) by simp
  then show ?thesis by (simp add: vlength_def dot_def s_def del: fsqrt_simps)
qed

section \<open>Vectors in the plane\<close>

lemma flatE:
  assumes "flat v" obtains a b where "v = Vec3 (Finite a) (Finite b) (Finite 0)"
  using assms by (cases v) (auto simp: flat_def elim!: is_finiteE)

lemma flat_Vec3 [simp]: "flat (Vec3 (Finite a) (Finite b) (Finite 0))"
  by (simp add: flat_def)

lemma flat_ops:
  "flat u \<Longrightarrow> flat v \<Longrightarrow> flat (u + v)"
  "flat u \<Longrightarrow> flat v \<Longrightarrow> flat (u - v)"
  "is_finite s \<Longrightarrow> flat v \<Longrightarrow> flat (scale s v)"
  "is_finite s \<Longrightarrow> flat v \<Longrightarrow> flat (scale_r v s)"
  "flat 0"
  by (auto elim!: flatE is_finiteE simp: vec3_ctor_simps)

lemma is_finite_ops:
  "is_finite a \<Longrightarrow> is_finite b \<Longrightarrow> is_finite (a + b)"
  "is_finite a \<Longrightarrow> is_finite b \<Longrightarrow> is_finite (a - b)"
  "is_finite a \<Longrightarrow> is_finite b \<Longrightarrow> is_finite (a * b)"
  by (auto elim!: is_finiteE)

lemma flat_moderate: "moderate_vec v \<Longrightarrow> vz v = Finite 0 \<Longrightarrow> flat v"
  by (simp add: flat_def moderate_vec_def moderate_is_finite)

lemma apart_sym: "apart p q = apart q p"
  by (simp add: apart_def dot_swap[of p q])

lemma flat_spring_force:
  assumes "is_finite k" "is_finite rest" "flat p" "flat q"
    and "moderate_vec p" "moderate_vec q" "apart p q"
  shows "flat (spring_force k rest p q)"
proof -
  obtain u where u: "dot (q - p) (q - p) = Finite u" "1 / 2 ^ 40 \<le> u" "u \<le> 3 * 2 ^ 42"
    using assms(5-7) by (rule dot_apart)
  obtain k' r' where k: "k = Finite k'" "rest = Finite r'"
    using assms(1,2) by (auto elim!: is_finiteE)
  have "flat (q - p)" using assms(3,4) by (simp add: flat_ops)
  then show ?thesis
    unfolding k spring_force_in_range[OF u] by (simp add: flat_ops)
qed

lemma flat_IntegrateLinear:
  assumes "flat_body b" "moderate dt"
  shows "flat_body (IntegrateLinear dt b)"
proof -
  have "is_finite dt" using assms(2) by (rule moderate_is_finite)
  then have "is_finite (powf_2 dt)"
    unfolding powf_2_moderate[OF assms(2)] by (simp add: is_finite_ops)
  then show ?thesis
    using assms(1) \<open>is_finite dt\<close>
    by (simp add: flat_body_def flat_ops is_finite_ops del: powf_2_simps)
qed

lemma all_cells_iff:
  assumes "grid_ok sb"
  shows "list_all (list_all P) (bodies sb) \<longleftrightarrow> (\<forall>a c. in_grid sb a c \<longrightarrow> P (cell sb a c))"
proof
  assume all: "list_all (list_all P) (bodies sb)"
  show "\<forall>a c. in_grid sb a c \<longrightarrow> P (cell sb a c)"
  proof (intro allI impI)
    fix a c assume "in_grid sb a c"
    then have "nat a < length (bodies sb)" "nat c < length (bodies sb ! nat a)"
      using assms by (auto simp: in_grid_def grid_ok_def list_all_length)
    then show "P (cell sb a c)" using all by (simp add: list_all_length cell_def)
  qed
next
  assume cells: "\<forall>a c. in_grid sb a c \<longrightarrow> P (cell sb a c)"
  have "P (bodies sb ! n ! m)" if "n < length (bodies sb)" "m < length (bodies sb ! n)" for n m
  proof -
    have "in_grid sb (int n) (int m)"
      using that assms by (auto simp: in_grid_def grid_ok_def list_all_length)
    then have "P (cell sb (int n) (int m))" using cells by blast
    then show ?thesis by (simp add: cell_def)
  qed
  then show "list_all (list_all P) (bodies sb)" by (simp add: list_all_length)
qed

lemma spread_pairs:
  assumes "spread sb" "in_grid sb i j"
  shows "i < subdivisionsY sb - 1
      \<Longrightarrow> apart (position (cell sb i j)) (position (cell sb (i + 1) j))"
    and "j < subdivisionsX sb - 1
      \<Longrightarrow> apart (position (cell sb i j)) (position (cell sb i (j + 1)))"
  using assms by (auto simp: spread_def in_grid_def list_all_iff)

lemma spread_neighbours:
  assumes "spread sb" "in_grid sb i j"
  shows "0 < i \<Longrightarrow> apart (position (cell sb i j)) (position (cell sb (i - 1) j))"
    and "i < subdivisionsY sb - 1
      \<Longrightarrow> apart (position (cell sb i j)) (position (cell sb (i + 1) j))"
    and "0 < j \<Longrightarrow> apart (position (cell sb i j)) (position (cell sb i (j - 1)))"
    and "j < subdivisionsX sb - 1
      \<Longrightarrow> apart (position (cell sb i j)) (position (cell sb i (j + 1)))"
proof -
  show "0 < i \<Longrightarrow> apart (position (cell sb i j)) (position (cell sb (i - 1) j))"
    using spread_pairs(1)[OF assms(1), of "i - 1" j] assms(2)
    by (auto simp: in_grid_def apart_sym[of "position (cell sb i j)"])
  show "0 < j \<Longrightarrow> apart (position (cell sb i j)) (position (cell sb i (j - 1)))"
    using spread_pairs(2)[OF assms(1), of i "j - 1"] assms(2)
    by (auto simp: in_grid_def apart_sym[of "position (cell sb i j)"])
  show "i < subdivisionsY sb - 1
      \<Longrightarrow> apart (position (cell sb i j)) (position (cell sb (i + 1) j))"
    using assms by (rule spread_pairs(1))
  show "j < subdivisionsX sb - 1
      \<Longrightarrow> apart (position (cell sb i j)) (position (cell sb i (j + 1)))"
    using assms by (rule spread_pairs(2))
qed

text \<open>A tame soft body whose bodies are planar is a grid of numbers in the plane.\<close>

lemma tame_cells:
  assumes "grid_ok sb" "tame sb" "in_grid sb a c"
  shows "tame_body (cell sb a c)"
  using assms all_cells_iff[OF assms(1), of tame_body] by (simp add: tame_def)

lemma planar_cells:
  assumes "grid_ok sb" "planar_grid sb" "in_grid sb a c"
  shows "planar_body (cell sb a c)"
  using assms all_cells_iff[OF assms(1), of planar_body] by (simp add: planar_grid_def)

lemma flat_body_tame: "tame_body b \<Longrightarrow> planar_body b \<Longrightarrow> flat_body b"
  by (simp add: tame_body_def planar_body_def flat_body_def flat_moderate moderate_is_finite)

lemma planar_body_flat: "flat_body b \<Longrightarrow> planar_body b"
  by (simp add: planar_body_def flat_body_def flat_def)

lemma flat_grid_tame:
  assumes "grid_ok sb" "tame sb" "planar_grid sb"
  shows "flat_grid sb"
proof -
  have "flat_body (cell sb a c)" if "in_grid sb a c" for a c
    using tame_cells[OF assms(1,2) that] planar_cells[OF assms(1,3) that]
    by (rule flat_body_tame)
  then have "list_all (list_all flat_body) (bodies sb)"
    using all_cells_iff[OF assms(1), of flat_body] by blast
  then show ?thesis using assms(2) by (simp add: flat_grid_def tame_def moderate_is_finite)
qed

lemma planar_grid_flat:
  assumes "grid_ok sb" "flat_grid sb"
  shows "planar_grid sb"
proof -
  have "flat_body (cell sb a c)" if "in_grid sb a c" for a c
    using assms that all_cells_iff[OF assms(1), of flat_body] by (simp add: flat_grid_def)
  then have "planar_body (cell sb a c)" if "in_grid sb a c" for a c
    using that by (simp add: planar_body_flat)
  then show ?thesis
    using all_cells_iff[OF assms(1), of planar_body] by (simp add: planar_grid_def)
qed

lemma flat_net_force:
  assumes ok: "grid_ok sb" and tm: "tame sb" and pl: "planar_grid sb"
    and e: "flat e" and ig: "in_grid sb i j"
  shows "flat (net_force e sb i j)"
proof -
  note fl = flat_grid_tame[OF ok tm pl]
  have sp: "spread sb" using tm by (simp add: tame_def)
  have cells: "flat_body (cell sb a c)" if "in_grid sb a c" for a c
    using fl that all_cells_iff[OF ok, of flat_body] by (simp add: flat_grid_def)
  have mods: "moderate_vec (position (cell sb a c))" if "in_grid sb a c" for a c
    using tame_cells[OF ok tm that] by (simp add: tame_body_def)
  have par: "is_finite (restHeight sb)" "is_finite (restWidth sb)" "is_finite (coefficient sb)"
    "is_finite (dampening sb)"
    using fl by (simp_all add: flat_grid_def)
  have self: "flat (position (cell sb i j))" "flat (velocity (cell sb i j))"
    "flat (netForce (cell sb i j))"
    using cells[OF ig] by (simp_all add: flat_body_def)
  have damp: "flat (scale_r (velocity (cell sb i j)) (dampening sb))"
    using self par by (simp add: flat_ops)
  have up: "flat (spring_force (coefficient sb) (restHeight sb) (position (cell sb i j))
      (position (cell sb (i - 1) j)))" if "0 < i"
  proof -
    have n: "in_grid sb (i - 1) j" using ig that by (simp add: in_grid_def)
    then have "flat (position (cell sb (i - 1) j))" using cells by (simp add: flat_body_def)
    then show ?thesis
      using par self mods[OF ig] mods[OF n] spread_neighbours(1)[OF sp ig that]
      by (intro flat_spring_force)
  qed
  have down: "flat (spring_force (coefficient sb) (restHeight sb) (position (cell sb i j))
      (position (cell sb (i + 1) j)))" if "i < subdivisionsY sb - 1"
  proof -
    have n: "in_grid sb (i + 1) j" using ig that by (simp add: in_grid_def)
    then have "flat (position (cell sb (i + 1) j))" using cells by (simp add: flat_body_def)
    then show ?thesis
      using par self mods[OF ig] mods[OF n] spread_neighbours(2)[OF sp ig that]
      by (intro flat_spring_force)
  qed
  have left: "flat (spring_force (coefficient sb) (restWidth sb) (position (cell sb i j))
      (position (cell sb i (j - 1))))" if "0 < j"
  proof -
    have n: "in_grid sb i (j - 1)" using ig that by (simp add: in_grid_def)
    then have "flat (position (cell sb i (j - 1)))" using cells by (simp add: flat_body_def)
    then show ?thesis
      using par self mods[OF ig] mods[OF n] spread_neighbours(3)[OF sp ig that]
      by (intro flat_spring_force)
  qed
  have right: "flat (spring_force (coefficient sb) (restWidth sb) (position (cell sb i j))
      (position (cell sb i (j + 1))))" if "j < subdivisionsX sb - 1"
  proof -
    have n: "in_grid sb i (j + 1)" using ig that by (simp add: in_grid_def)
    then have "flat (position (cell sb i (j + 1)))" using cells by (simp add: flat_body_def)
    then show ?thesis
      using par self mods[OF ig] mods[OF n] spread_neighbours(4)[OF sp ig that]
      by (intro flat_spring_force)
  qed
  show ?thesis
    unfolding net_force_def net_force_from_def Let_def
    using up down left right damp self(3) e
    by (cases "0 < i"; cases "i < subdivisionsY sb - 1"; cases "0 < j";
        cases "j < subdivisionsX sb - 1"; cases "i = 0")
       (simp_all add: flat_ops)
qed

lemma for_loop_preserves:
  "Q s \<Longrightarrow> (\<And>k t. Q t \<Longrightarrow> Q (f k t)) \<Longrightarrow> Q (for_loop i hi f s)"
proof (induction i hi f s rule: for_loop.induct)
  case (1 i hi f s)
  show ?case
  proof (cases "i < hi")
    case True
    have "Q (f i s)" using 1(2,3) by blast
    then have "Q (for_loop (i + 1) hi f (f i s))" using 1(1)[OF True] 1(3) by blast
    then show ?thesis using True by (simp add: for_loop.simps[of i])
  next
    case False
    then show ?thesis using 1(2) by (simp add: for_loop.simps[of i])
  qed
qed

lemma lattice_length_integrate_cell:
  "length (vertices (lattice (integrate_cell dt i j g))) = length (vertices (lattice g))"
  by (simp add: integrate_cell_def Let_def)

lemma lattice_length_integrate_all:
  "length (vertices (lattice (integrate_all dt g))) = length (vertices (lattice g))"
  unfolding integrate_all_def
  by (intro for_loop_preserves[where Q = "\<lambda>t. length (vertices (lattice t)) = length (vertices (lattice g))"])
     (simp_all add: lattice_length_integrate_cell)

lemma state_ok_Step:
  assumes "state_ok g"
  shows "state_ok (Step dt e g)"
proof -
  have ok: "grid_ok (body g)" using assms by (simp add: state_ok_def)
  have "length (vertices (lattice (Step dt e g))) = length (vertices (lattice g))"
    by (simp add: Step_def lattice_length_integrate_all)
  then have "lattice_ok (Step dt e g)"
    using assms frame_fields[OF Step_grid(2)[OF ok, of dt e]]
    by (simp add: state_ok_def lattice_ok_def)
  then show ?thesis using Step_grid(1)[OF ok] by (simp add: state_ok_def)
qed

lemma planar_grid_Step:
  assumes st: "state_ok g" and pl: "planar_grid (body g)" and tm: "tame (body g)"
    and dt: "moderate dt" and e: "planar_force e"
  shows "planar_grid (body (Step dt e g))"
proof -
  have ok: "grid_ok (body g)" using st by (simp add: state_ok_def)
  note fr = Step_grid(2)[OF ok, of dt e]
  note ok' = Step_grid(1)[OF ok, of dt e]
  have fe: "flat e" using e by (simp add: planar_force_def flat_moderate)
  have cells: "flat_body (cell (body g) a c)" if "in_grid (body g) a c" for a c
    using tame_cells[OF ok tm that] planar_cells[OF ok pl that] by (rule flat_body_tame)
  have "planar_body (cell (body (Step dt e g)) a c)" if "in_grid (body (Step dt e g)) a c" for a c
  proof -
    have ig: "in_grid (body g) a c" using that in_grid_frame[OF fr] by simp
    have "flat_body (forced e (body g) a c)"
      using cells[OF ig] flat_net_force[OF ok tm pl fe ig] by (simp add: flat_body_def forced_def)
    then have "flat_body (IntegrateLinear dt (forced e (body g) a c))"
      using dt by (rule flat_IntegrateLinear)
    then show ?thesis
      using Step_grid(3)[OF ok ig, of dt e] by (simp add: planar_body_flat)
  qed
  then show ?thesis
    using all_cells_iff[OF ok', of planar_body] by (simp add: planar_grid_def)
qed

lemma Steps_planar:
  "state_ok g \<Longrightarrow> planar_grid (body g) \<Longrightarrow> moderate dt \<Longrightarrow> list_all planar_force es
   \<Longrightarrow> tame_run dt es g
   \<Longrightarrow> state_ok (Steps dt es g) \<and> planar_grid (body (Steps dt es g))
       \<and> frame (body (Steps dt es g)) = frame (body g)"
proof (induction es arbitrary: g)
  case Nil
  then show ?case by simp
next
  case (Cons e es)
  have ok: "grid_ok (body g)" using Cons.prems(1) by (simp add: state_ok_def)
  have e: "planar_force e" "list_all planar_force es" using Cons.prems(4) by simp_all
  have tm: "tame (body g)" "tame_run dt es (Step dt e g)"
    using Cons.prems(5) by simp_all
  have "state_ok (Step dt e g)" using Cons.prems(1) by (rule state_ok_Step)
  moreover have "planar_grid (body (Step dt e g))"
    using Cons.prems(1,2) tm(1) Cons.prems(3) e(1) by (rule planar_grid_Step)
  ultimately have "state_ok (Steps dt es (Step dt e g))
      \<and> planar_grid (body (Steps dt es (Step dt e g)))
      \<and> frame (body (Steps dt es (Step dt e g))) = frame (body (Step dt e g))"
    using Cons.prems(3) e(2) tm(2) by (intro Cons.IH)
  then show ?case using Step_grid(2)[OF ok, of dt e] by simp
qed
section \<open>The four blocks\<close>

lemma netForce_add_netForce:
  assumes "grid_ok sb" "in_grid sb i j"
  shows "netForce (cell (add_netForce i j f sb) i j) = netForce (cell sb i j) + f"
proof -
  have "0 \<le> i" "0 \<le> j" using assms(2) by (simp_all add: in_grid_def)
  then show ?thesis using assms by (simp add: add_netForce_def cell_set_cell)
qed

lemma block_netForce:
  assumes "grid_ok sb" "in_grid sb i j"
  shows "0 < i \<Longrightarrow> netForce (cell (block_above i j sb) i j)
      = netForce (cell sb i j)
        + (spring_force (coefficient sb) (restHeight sb) (position (cell sb i j))
             (position (cell sb (i - 1) j))
           - scale_r (velocity (cell sb i j)) (dampening sb))"
    and "i < subdivisionsY sb - 1 \<Longrightarrow> netForce (cell (block_below i j sb) i j)
      = netForce (cell sb i j)
        + (spring_force (coefficient sb) (restHeight sb) (position (cell sb i j))
             (position (cell sb (i + 1) j))
           - scale_r (velocity (cell sb i j)) (dampening sb))"
    and "0 < j \<Longrightarrow> netForce (cell (block_left i j sb) i j)
      = netForce (cell sb i j)
        + (spring_force (coefficient sb) (restWidth sb) (position (cell sb i j))
             (position (cell sb i (j - 1)))
           - scale_r (velocity (cell sb i j)) (dampening sb))"
    and "j < subdivisionsX sb - 1 \<Longrightarrow> netForce (cell (block_right i j sb) i j)
      = netForce (cell sb i j)
        + (spring_force (coefficient sb) (restWidth sb) (position (cell sb i j))
             (position (cell sb i (j + 1)))
           - scale_r (velocity (cell sb i j)) (dampening sb))"
  by (simp_all add: block_above_def block_below_def block_left_def block_right_def
      apply_spring_def netForce_add_netForce[OF assms])

section \<open>The unit square, the small soft body and the scenario after a pull\<close>

lemma unit_square_facts:
  "grid_ok unit_square_body"
  "in_grid unit_square_body 0 0" "in_grid unit_square_body 0 1" "in_grid unit_square_body 1 0"
  "subdivisionsX unit_square_body = 2" "subdivisionsY unit_square_body = 2"
  "restHeight unit_square_body = Finite (1/2)" "restWidth unit_square_body = Finite (1/2)"
  "coefficient unit_square_body = Finite 25" "dampening unit_square_body = Finite (1/2)"
  "cell unit_square_body 0 0 = rest_body 0 0" "cell unit_square_body 0 1 = rest_body 1 0"
  "cell unit_square_body 1 0 = rest_body 0 1"
  by (simp_all add: unit_square_body_def scenario_body_eq grid_ok_def in_grid_def cell_def)

lemma speck_body_ctor:
  "SoftBody_ctor (Finite (1 / 2 ^ 99)) (Finite (1 / 2 ^ 99)) 2 2 (Finite 25) (Finite (1/2)) =
     Inr \<lparr>subdivisionsX = 2, subdivisionsY = 2, restHeight = Finite (1 / 2 ^ 100),
          restWidth = Finite (1 / 2 ^ 100), numRigidBodies = 4,
          bodies = [[rest_body (- (1 / 2 ^ 100)) (- (1 / 2 ^ 100)), rest_body 0 (- (1 / 2 ^ 100))],
                    [rest_body (- (1 / 2 ^ 100)) 0, rest_body 0 0]],
          coefficient = Finite 25, dampening = Finite (1/2)\<rparr>"
  by (simp add: SoftBody_ctor_def Let_def for_loop.simps set_cell_def RigidBody_ctor_def
      RigidBody_default_def float_of_int_def vec3_all_def rest_body_def eval_nat_numeral)

lemma speck_body_eq:
  "speck_body =
     \<lparr>subdivisionsX = 2, subdivisionsY = 2, restHeight = Finite (1 / 2 ^ 100),
      restWidth = Finite (1 / 2 ^ 100), numRigidBodies = 4,
      bodies = [[rest_body (- (1 / 2 ^ 100)) (- (1 / 2 ^ 100)), rest_body 0 (- (1 / 2 ^ 100))],
                [rest_body (- (1 / 2 ^ 100)) 0, rest_body 0 0]],
      coefficient = Finite 25, dampening = Finite (1/2)\<rparr>"
  unfolding speck_body_def speck_body_ctor by simp

lemma speck_facts:
  "grid_ok speck_body"
  "in_grid speck_body 0 0" "in_grid speck_body 0 1" "in_grid speck_body 1 0"
  "in_grid speck_body 1 1"
  "subdivisionsX speck_body = 2" "subdivisionsY speck_body = 2"
  "restHeight speck_body = Finite (1 / 2 ^ 100)" "restWidth speck_body = Finite (1 / 2 ^ 100)"
  "coefficient speck_body = Finite 25" "dampening speck_body = Finite (1/2)"
  by (simp_all add: speck_body_eq grid_ok_def in_grid_def)

lemma speck_cells:
  "cell speck_body 0 0 = rest_body (- (1 / 2 ^ 100)) (- (1 / 2 ^ 100))"
  "cell speck_body 0 1 = rest_body 0 (- (1 / 2 ^ 100))"
  "cell speck_body 1 0 = rest_body (- (1 / 2 ^ 100)) 0"
  "cell speck_body 1 1 = rest_body 0 0"
  by (simp_all add: cell_def speck_body_eq)

lemma speck_ok: "state_ok speck" "body speck = speck_body"
  by (simp_all add: state_ok_def grid_ok_def lattice_ok_def speck_def speck_body_eq)

lemma speck_springs:
  "spring_force (coefficient speck_body) (restWidth speck_body)
     (position (cell speck_body 0 0)) (position (cell speck_body 0 1)) = Vec3 NaN NaN NaN"
  "spring_force (coefficient speck_body) (restWidth speck_body)
     (position (cell speck_body 0 1)) (position (cell speck_body 0 0)) = Vec3 NaN NaN NaN"
  by (simp_all add: speck_cells speck_facts rest_body_def vec3_eval)

lemma speck_net_force: "net_force 0 speck_body 0 0 = Vec3 NaN NaN NaN"
  by (simp add: net_force_def net_force_from_def speck_facts speck_cells rest_body_def vec3_eval)

lemma rest_body_tame:
  "\<bar>a\<bar> \<le> 2 ^ 20 \<Longrightarrow> \<bar>b\<bar> \<le> 2 ^ 20 \<Longrightarrow> tame_body (rest_body a b)"
  "planar_body (rest_body a b)"
  by (simp_all add: tame_body_def planar_body_def moderate_vec_def rest_body_def)

lemma scenario_tame: "tame scenario_body"
proof -
  have "list_all (list_all tame_body) (bodies scenario_body)"
    by (simp add: scenario_body_eq rest_body_tame)
  moreover have "spread scenario_body"
    by (simp add: spread_def scenario_fields upto.simps scenario_cells rest_body_def apart_def
        dot_def)
  ultimately show ?thesis by (simp add: tame_def scenario_fields)
qed

lemma scenario_planar: "planar_grid (body scenario)"
  by (simp add: planar_grid_def scenario_def scenario_body_eq rest_body_tame)

lemma pull_planar: "planar_force pull" "planar_force 0"
  by (simp_all add: planar_force_def pull_def moderate_vec_def)

lemma scenario_pull_net_force:
  "net_force pull scenario_body 0 0 = pull" "net_force pull scenario_body 0 1 = pull"
  "net_force pull scenario_body 1 0 = 0" "net_force pull scenario_body 1 1 = 0"
  by (simp_all add: net_force_def net_force_from_def scenario_fields scenario_cells rest_body_def
      pull_def vec3_eval)

lemma dragged_ok: "state_ok dragged" "frame (body dragged) = frame scenario_body"
  "grid_ok (body dragged)"
proof -
  have ok: "grid_ok (body scenario)" using scenario_ok by (simp add: state_ok_def)
  show "state_ok dragged" unfolding dragged_def using scenario_ok by (rule state_ok_Step)
  show "frame (body dragged) = frame scenario_body"
    unfolding dragged_def using Step_grid(2)[OF ok] by (simp add: scenario_def)
  show "grid_ok (body dragged)" unfolding dragged_def using ok by (rule Step_grid(1))
qed

lemma dragged_fields:
  "subdivisionsX (body dragged) = 2" "subdivisionsY (body dragged) = 2"
  "restHeight (body dragged) = Finite (1/2)" "restWidth (body dragged) = Finite (1/2)"
  "coefficient (body dragged) = Finite 25" "dampening (body dragged) = Finite (1/2)"
  using frame_fields[OF dragged_ok(2)] by (simp_all add: scenario_fields)

lemma dragged_cells:
  "cell (body dragged) 0 0
     = \<lparr>inverseMass = Finite 1,
        position = Vec3 (Finite (- (144073682900968471 / 288230376151711744))) (Finite (- (1/2)))
                     (Finite 0),
        velocity = Vec3 (Finite (6442451 / 268435456)) (Finite 0) (Finite 0),
        acceleration = Vec3 (Finite 2) (Finite 0) (Finite 0),
        netForce = Vec3 (Finite 0) (Finite 0) (Finite 0),
        netImpulse = Vec3 (Finite 0) (Finite 0) (Finite 0)\<rparr>"
  "cell (body dragged) 0 1
     = \<lparr>inverseMass = Finite 1,
        position = Vec3 (Finite (41505174887401 / 288230376151711744)) (Finite (- (1/2)))
                     (Finite 0),
        velocity = Vec3 (Finite (6442451 / 268435456)) (Finite 0) (Finite 0),
        acceleration = Vec3 (Finite 2) (Finite 0) (Finite 0),
        netForce = Vec3 (Finite 0) (Finite 0) (Finite 0),
        netImpulse = Vec3 (Finite 0) (Finite 0) (Finite 0)\<rparr>"
  "cell (body dragged) 1 0 = rest_body (- 1/2) 0"
  "cell (body dragged) 1 1 = rest_body 0 0"
proof -
  have ok: "grid_ok (body scenario)" using scenario_ok by (simp add: state_ok_def)
  have b: "body scenario = scenario_body" by (simp add: scenario_def)
  note step = Step_grid(3)[OF ok, of _ _ physicsStep pull, folded dragged_def, unfolded b]
  show "cell (body dragged) 0 0
     = \<lparr>inverseMass = Finite 1,
        position = Vec3 (Finite (- (144073682900968471 / 288230376151711744))) (Finite (- (1/2)))
                     (Finite 0),
        velocity = Vec3 (Finite (6442451 / 268435456)) (Finite 0) (Finite 0),
        acceleration = Vec3 (Finite 2) (Finite 0) (Finite 0),
        netForce = Vec3 (Finite 0) (Finite 0) (Finite 0),
        netImpulse = Vec3 (Finite 0) (Finite 0) (Finite 0)\<rparr>"
    using scenario_in_grid(1)
    by (simp add: step b forced_def scenario_pull_net_force scenario_cells)
       (simp add: IntegrateLinear_def Let_def rest_body_def pull_def physicsStep_def
          vec3_ctor_simps vec3_all_def FLT_OVERFLOW_def)
  show "cell (body dragged) 0 1
     = \<lparr>inverseMass = Finite 1,
        position = Vec3 (Finite (41505174887401 / 288230376151711744)) (Finite (- (1/2)))
                     (Finite 0),
        velocity = Vec3 (Finite (6442451 / 268435456)) (Finite 0) (Finite 0),
        acceleration = Vec3 (Finite 2) (Finite 0) (Finite 0),
        netForce = Vec3 (Finite 0) (Finite 0) (Finite 0),
        netImpulse = Vec3 (Finite 0) (Finite 0) (Finite 0)\<rparr>"
    using scenario_in_grid(2)
    by (simp add: step b forced_def scenario_pull_net_force scenario_cells)
       (simp add: IntegrateLinear_def Let_def rest_body_def pull_def physicsStep_def
          vec3_ctor_simps vec3_all_def FLT_OVERFLOW_def)
  show "cell (body dragged) 1 0 = rest_body (- 1/2) 0"
    using scenario_in_grid(3)
    by (simp add: step b forced_def scenario_pull_net_force scenario_cells)
       (simp add: IntegrateLinear_def Let_def rest_body_def physicsStep_def
          vec3_ctor_simps vec3_all_def FLT_OVERFLOW_def)
  show "cell (body dragged) 1 1 = rest_body 0 0"
    using scenario_in_grid(4)
    by (simp add: step b forced_def scenario_pull_net_force scenario_cells)
       (simp add: IntegrateLinear_def Let_def rest_body_def physicsStep_def
          vec3_ctor_simps vec3_all_def FLT_OVERFLOW_def)
qed

lemma dragged_tame: "tame (body dragged)"
proof -
  have "tame_body (cell (body dragged) a c)" if "in_grid (body dragged) a c" for a c
  proof -
    have "(a = 0 \<or> a = 1) \<and> (c = 0 \<or> c = 1)"
      using that by (auto simp: in_grid_def dragged_fields)
    then show ?thesis
      by (auto simp: dragged_cells rest_body_tame) (simp_all add: tame_body_def moderate_vec_def)
  qed
  then have "list_all (list_all tame_body) (bodies (body dragged))"
    using all_cells_iff[OF dragged_ok(3), of tame_body] by blast
  moreover have "spread (body dragged)"
    by (simp add: spread_def dragged_fields upto.simps dragged_cells rest_body_def apart_def
        dot_def)
  ultimately show ?thesis by (simp add: tame_def dragged_fields)
qed
section \<open>The two phases of a step\<close>

text \<open>
  C1. The step is two-phase. For every grid whose arrays have the announced extents, with a
  mesh that has room for the vertices written, every \<open>dt\<close> and every external force, the
  soft body that \<open>Step\<close> leaves is the one of the reference composition: first the net force
  of every cell from the positions and velocities before the step, then the integration of
  every cell.
\<close>

theorem Step_two_phase:
  assumes "state_ok g"
  shows "body (Step dt externalForce g) = ref_Step dt externalForce (body g)"
proof (rule grid_eqI)
  have ok: "grid_ok (body g)" using assms by (simp add: state_ok_def)
  show "grid_ok (body (Step dt externalForce g))" using ok by (rule Step_grid(1))
  show "grid_ok (ref_Step dt externalForce (body g))" by (rule ref_Step_grid(1))
  show "frame (body (Step dt externalForce g)) = frame (ref_Step dt externalForce (body g))"
    using Step_grid(2)[OF ok] by (simp add: ref_Step_grid(2))
  fix a c assume "in_grid (body (Step dt externalForce g)) a c"
  then have "in_grid (body g) a c"
    using in_grid_frame[OF Step_grid(2)[OF ok, of dt externalForce]] by simp
  then show "cell (body (Step dt externalForce g)) a c = cell (ref_Step dt externalForce (body g)) a c"
    using Step_grid(3)[OF ok] ref_Step_grid(3) by simp
qed

theorem Step_two_phase_witness:
  "state_ok scenario
   \<and> body (Step physicsStep (Vec3 (Finite 2) (Finite 0) (Finite 0)) scenario)
       = ref_Step physicsStep (Vec3 (Finite 2) (Finite 0) (Finite 0)) (body scenario)"
  using Step_two_phase [of scenario physicsStep "Vec3 (Finite 2) (Finite 0) (Finite 0)"]
  by (simp add: scenario_ok)

section \<open>The accumulators after a step\<close>

text \<open>
  C6. After every call of \<open>Step\<close>, the net force and the net impulse of every cell of the
  grid are the zero vector.
\<close>

theorem Step_resets_accumulators:
  assumes "state_ok g" and "in_grid (body g) i j"
  shows "netForce (cell (body (Step dt externalForce g)) i j) = 0
       \<and> netImpulse (cell (body (Step dt externalForce g)) i j) = 0"
  using assms by (simp add: state_ok_def Step_grid(3))

theorem Step_resets_accumulators_witness:
  "state_ok scenario \<and> in_grid (body scenario) 0 1
   \<and> netForce (cell (apply_forces (Vec3 (Finite 2) (Finite 0) (Finite 0)) (body scenario)) 0 1)
       = Vec3 (Finite 2) (Finite 0) (Finite 0)
   \<and> netForce (cell (body (Step physicsStep (Vec3 (Finite 2) (Finite 0) (Finite 0)) scenario)) 0 1) = 0
   \<and> netImpulse (cell (body (Step physicsStep (Vec3 (Finite 2) (Finite 0) (Finite 0)) scenario)) 0 1) = 0"
proof -
  have ok: "grid_ok (body scenario)" using scenario_ok by (simp add: state_ok_def)
  have "netForce (cell (apply_forces (Vec3 (Finite 2) (Finite 0) (Finite 0)) (body scenario)) 0 1)
      = Vec3 (Finite 2) (Finite 0) (Finite 0)"
    using apply_forces_grid(3)[OF ok scenario_in_grid(2), of "Vec3 (Finite 2) (Finite 0) (Finite 0)"]
      scenario_pull_net_force(2)
    by (simp add: forced_def scenario_def pull_def)
  then show ?thesis
    using Step_resets_accumulators [of scenario 0 1 physicsStep "Vec3 (Finite 2) (Finite 0) (Finite 0)"]
    by (simp add: scenario_ok scenario_in_grid)
qed

section \<open>The external force\<close>

text \<open>
  C7. In a step the external force is added once to the net force of every cell of row 0
  (the net force accumulated there is the one accumulated under a zero external force, plus
  the external force), and the cells of the rows \<open>i > 0\<close> are the same under any two
  external forces, after the accumulation of the forces and after the whole step.
\<close>

theorem external_force_on_row_0_only:
  assumes "state_ok g" and "in_grid (body g) i j"
  shows "(i = 0 \<longrightarrow> netForce (cell (apply_forces externalForce (body g)) i j)
                      = netForce (cell (apply_forces 0 (body g)) i j) + externalForce)
       \<and> (0 < i \<longrightarrow> cell (apply_forces externalForce (body g)) i j
                        = cell (apply_forces externalForce' (body g)) i j
                    \<and> cell (body (Step dt externalForce g)) i j
                        = cell (body (Step dt externalForce' g)) i j)"
proof -
  have ok: "grid_ok (body g)" using assms(1) by (simp add: state_ok_def)
  have forces: "cell (apply_forces e (body g)) i j = forced e (body g) i j" for e
    using ok assms(2) by (rule apply_forces_grid(3))
  have steps: "cell (body (Step dt e g)) i j = IntegrateLinear dt (forced e (body g) i j)" for e
    using ok assms(2) by (rule Step_grid(3))
  have same: "forced externalForce (body g) i j = forced externalForce' (body g) i j"
    if "0 < i"
    using that net_force_other_rows[of i externalForce "body g" j externalForce']
    by (simp add: forced_def)
  have row_0: "netForce (cell (apply_forces externalForce (body g)) i j)
      = netForce (cell (apply_forces 0 (body g)) i j) + externalForce" if "i = 0"
    unfolding forces using that net_force_row_0[of externalForce "body g" j] by simp
  have others: "cell (apply_forces externalForce (body g)) i j
      = cell (apply_forces externalForce' (body g)) i j" if "0 < i"
    unfolding forces using that by (rule same)
  have after: "cell (body (Step dt externalForce g)) i j
      = cell (body (Step dt externalForce' g)) i j" if "0 < i"
    unfolding steps using same[OF that] by simp
  show ?thesis using row_0 others after by blast
qed

theorem external_force_on_row_0_only_witness:
  "state_ok scenario \<and> in_grid (body scenario) 0 1 \<and> in_grid (body scenario) 1 1
   \<and> netForce (cell (apply_forces (Vec3 (Finite 2) (Finite 0) (Finite 0)) (body scenario)) 0 1)
       = netForce (cell (apply_forces 0 (body scenario)) 0 1) + Vec3 (Finite 2) (Finite 0) (Finite 0)
   \<and> cell (apply_forces (Vec3 (Finite 2) (Finite 0) (Finite 0)) (body scenario)) 1 1
       = cell (apply_forces (Vec3 (Finite 0) (Finite (- 2)) (Finite 0)) (body scenario)) 1 1
   \<and> cell (body (Step physicsStep (Vec3 (Finite 2) (Finite 0) (Finite 0)) scenario)) 1 1
       = cell (body (Step physicsStep (Vec3 (Finite 0) (Finite (- 2)) (Finite 0)) scenario)) 1 1"
  using external_force_on_row_0_only [of scenario 0 1 "Vec3 (Finite 2) (Finite 0) (Finite 0)"]
    external_force_on_row_0_only [of scenario 1 1 "Vec3 (Finite 2) (Finite 0) (Finite 0)"
      "Vec3 (Finite 0) (Finite (- 2)) (Finite 0)" physicsStep]
  by (simp add: scenario_ok scenario_in_grid)

section \<open>The two ends of a spring\<close>

text \<open>
  C8, as the code has it. In a grid with a moderate coefficient and moderate rest lengths,
  for a cell \<open>A = (i, j)\<close> and the cell \<open>B\<close> below it, \<open>(i + 1, j)\<close>, or right of it,
  \<open>(i, j + 1)\<close>, whose positions are moderate and apart: with \<open>S\<close> the spring force on
  \<open>A\<close> from \<open>B\<close> for the rest length \<open>restHeight\<close> of a vertical pair, or \<open>restWidth\<close> of a
  horizontal pair, every component of \<open>S\<close> and the length of \<open>S\<close> are in the range of a
  float, \<open>- S\<close> has the length of \<open>S\<close>, the block of \<open>A\<close> for \<open>B\<close> (below, or right) adds
  \<open>S\<close> minus the dampening of \<open>A\<close> to the net force of \<open>A\<close>, and the block of \<open>B\<close> for
  \<open>A\<close> (above, or left) adds \<open>- S\<close> minus the dampening of \<open>B\<close> to the net force of \<open>B\<close>.
  The blocks read positions and parameters only, which no block assigns, so this holds in
  whichever state of the first pair of loops a block runs.
\<close>

theorem spring_forces_equal_and_opposite:
  assumes "grid_ok sb" and "in_grid sb i j"
    and "moderate (coefficient sb)" and "moderate (restHeight sb)" and "moderate (restWidth sb)"
    and "moderate_vec (position (cell sb i j))"
  shows
    "(in_grid sb (i + 1) j \<and> moderate_vec (position (cell sb (i + 1) j))
        \<and> apart (position (cell sb i j)) (position (cell sb (i + 1) j))
      \<longrightarrow> (let S = spring_force (coefficient sb) (restHeight sb)
                       (position (cell sb i j)) (position (cell sb (i + 1) j))
           in in_range_vec S \<and> in_range (vlength S) \<and> vlength (- S) = vlength S
              \<and> netForce (cell (block_below i j sb) i j)
                  = netForce (cell sb i j)
                    + (S - scale_r (velocity (cell sb i j)) (dampening sb))
              \<and> netForce (cell (block_above (i + 1) j sb) (i + 1) j)
                  = netForce (cell sb (i + 1) j)
                    + (- S - scale_r (velocity (cell sb (i + 1) j)) (dampening sb))))
   \<and> (in_grid sb i (j + 1) \<and> moderate_vec (position (cell sb i (j + 1)))
        \<and> apart (position (cell sb i j)) (position (cell sb i (j + 1)))
      \<longrightarrow> (let S = spring_force (coefficient sb) (restWidth sb)
                       (position (cell sb i j)) (position (cell sb i (j + 1)))
           in in_range_vec S \<and> in_range (vlength S) \<and> vlength (- S) = vlength S
              \<and> netForce (cell (block_right i j sb) i j)
                  = netForce (cell sb i j)
                    + (S - scale_r (velocity (cell sb i j)) (dampening sb))
              \<and> netForce (cell (block_left i (j + 1) sb) i (j + 1))
                  = netForce (cell sb i (j + 1))
                    + (- S - scale_r (velocity (cell sb i (j + 1))) (dampening sb))))"
proof -
  have range: "in_range_vec (spring_force (coefficient sb) rest (position (cell sb i j)) q)
      \<and> in_range (vlength (spring_force (coefficient sb) rest (position (cell sb i j)) q))"
    if r: "moderate rest" and q: "moderate_vec q" "apart (position (cell sb i j)) q" for rest q
  proof -
    obtain x y z where s: "spring_force (coefficient sb) rest (position (cell sb i j)) q
        = Vec3 (Finite x) (Finite y) (Finite z)"
      and b: "\<bar>x\<bar> \<le> 2 ^ 43" "\<bar>y\<bar> \<le> 2 ^ 43" "\<bar>z\<bar> \<le> 2 ^ 43"
      using assms(3) r assms(6) q by (rule spring_force_bounded)
    have "(2 :: real) ^ 43 < FLT_OVERFLOW" by (simp add: FLT_OVERFLOW_def)
    then have "in_range_vec (Vec3 (Finite x) (Finite y) (Finite z))"
      using b by (simp add: in_range_vec_def)
    then show ?thesis using vlength_bounded[OF b] by (simp add: s)
  qed
  have vertical: "netForce (cell (block_below i j sb) i j)
        = netForce (cell sb i j)
          + (spring_force (coefficient sb) (restHeight sb)
               (position (cell sb i j)) (position (cell sb (i + 1) j))
             - scale_r (velocity (cell sb i j)) (dampening sb))
      \<and> netForce (cell (block_above (i + 1) j sb) (i + 1) j)
        = netForce (cell sb (i + 1) j)
          + (- spring_force (coefficient sb) (restHeight sb)
               (position (cell sb i j)) (position (cell sb (i + 1) j))
             - scale_r (velocity (cell sb (i + 1) j)) (dampening sb))"
    if n: "in_grid sb (i + 1) j"
  proof -
    have "i < subdivisionsY sb - 1" "0 < i + 1"
      using n assms(2) by (simp_all add: in_grid_def)
    then show ?thesis
      using block_netForce(2)[OF assms(1,2)] block_netForce(1)[OF assms(1) n]
        spring_force_opposite[of "coefficient sb" "restHeight sb"
          "position (cell sb (i + 1) j)" "position (cell sb i j)"]
      by simp
  qed
  have horizontal: "netForce (cell (block_right i j sb) i j)
        = netForce (cell sb i j)
          + (spring_force (coefficient sb) (restWidth sb)
               (position (cell sb i j)) (position (cell sb i (j + 1)))
             - scale_r (velocity (cell sb i j)) (dampening sb))
      \<and> netForce (cell (block_left i (j + 1) sb) i (j + 1))
        = netForce (cell sb i (j + 1))
          + (- spring_force (coefficient sb) (restWidth sb)
               (position (cell sb i j)) (position (cell sb i (j + 1)))
             - scale_r (velocity (cell sb i (j + 1))) (dampening sb))"
    if n: "in_grid sb i (j + 1)"
  proof -
    have "j < subdivisionsX sb - 1" "0 < j + 1"
      using n assms(2) by (simp_all add: in_grid_def)
    then show ?thesis
      using block_netForce(4)[OF assms(1,2)] block_netForce(3)[OF assms(1) n]
        spring_force_opposite[of "coefficient sb" "restWidth sb"
          "position (cell sb i (j + 1))" "position (cell sb i j)"]
      by simp
  qed
  show ?thesis
    unfolding Let_def
    using range[OF assms(4)] range[OF assms(5)] vertical horizontal
    by (simp add: vlength_uminus)
qed

theorem spring_forces_equal_and_opposite_witness:
  "grid_ok unit_square_body \<and> in_grid unit_square_body 0 0
   \<and> moderate (coefficient unit_square_body) \<and> moderate (restHeight unit_square_body)
   \<and> moderate (restWidth unit_square_body)
   \<and> moderate_vec (position (cell unit_square_body 0 0))
   \<and> in_grid unit_square_body 1 0 \<and> moderate_vec (position (cell unit_square_body 1 0))
   \<and> apart (position (cell unit_square_body 0 0)) (position (cell unit_square_body 1 0))
   \<and> in_grid unit_square_body 0 1 \<and> moderate_vec (position (cell unit_square_body 0 1))
   \<and> apart (position (cell unit_square_body 0 0)) (position (cell unit_square_body 0 1))
   \<and> spring_force (coefficient unit_square_body) (restHeight unit_square_body)
        (position (cell unit_square_body 0 0)) (position (cell unit_square_body 1 0))
       = Vec3 (Finite 0) (Finite (25/2)) (Finite 0)
   \<and> spring_force (coefficient unit_square_body) (restWidth unit_square_body)
        (position (cell unit_square_body 0 0)) (position (cell unit_square_body 0 1))
       = Vec3 (Finite (25/2)) (Finite 0) (Finite 0)
   \<and> netForce (cell (block_below 0 0 unit_square_body) 0 0)
       = Vec3 (Finite 0) (Finite (25/2)) (Finite 0)
   \<and> netForce (cell (block_above 1 0 unit_square_body) 1 0)
       = Vec3 (Finite 0) (Finite (- (25/2))) (Finite 0)
   \<and> netForce (cell (block_right 0 0 unit_square_body) 0 0)
       = Vec3 (Finite (25/2)) (Finite 0) (Finite 0)
   \<and> netForce (cell (block_left 0 1 unit_square_body) 0 1)
       = Vec3 (Finite (- (25/2))) (Finite 0) (Finite 0)"
proof -
  note us = unit_square_facts
  have hyps: "moderate (coefficient unit_square_body)" "moderate (restHeight unit_square_body)"
    "moderate (restWidth unit_square_body)"
    "moderate_vec (position (cell unit_square_body 0 0))"
    "moderate_vec (position (cell unit_square_body 1 0))"
    "apart (position (cell unit_square_body 0 0)) (position (cell unit_square_body 1 0))"
    "moderate_vec (position (cell unit_square_body 0 1))"
    "apart (position (cell unit_square_body 0 0)) (position (cell unit_square_body 0 1))"
    by (simp_all add: us rest_body_def moderate_vec_def apart_def dot_def)
  have springs:
    "spring_force (coefficient unit_square_body) (restHeight unit_square_body)
        (position (cell unit_square_body 0 0)) (position (cell unit_square_body 1 0))
       = Vec3 (Finite 0) (Finite (25/2)) (Finite 0)"
    "spring_force (coefficient unit_square_body) (restWidth unit_square_body)
        (position (cell unit_square_body 0 0)) (position (cell unit_square_body 0 1))
       = Vec3 (Finite (25/2)) (Finite 0) (Finite 0)"
    by (simp_all add: us rest_body_def vec3_eval)
  have rest: "netForce (cell unit_square_body 0 0) = Vec3 (Finite 0) (Finite 0) (Finite 0)"
    "velocity (cell unit_square_body 0 0) = Vec3 (Finite 0) (Finite 0) (Finite 0)"
    "netForce (cell unit_square_body 1 0) = Vec3 (Finite 0) (Finite 0) (Finite 0)"
    "velocity (cell unit_square_body 1 0) = Vec3 (Finite 0) (Finite 0) (Finite 0)"
    "netForce (cell unit_square_body 0 1) = Vec3 (Finite 0) (Finite 0) (Finite 0)"
    "velocity (cell unit_square_body 0 1) = Vec3 (Finite 0) (Finite 0) (Finite 0)"
    by (simp_all add: us rest_body_def)
  have "netForce (cell (block_below 0 0 unit_square_body) 0 0)
       = Vec3 (Finite 0) (Finite (25/2)) (Finite 0)
   \<and> netForce (cell (block_above 1 0 unit_square_body) 1 0)
       = Vec3 (Finite 0) (Finite (- (25/2))) (Finite 0)
   \<and> netForce (cell (block_right 0 0 unit_square_body) 0 0)
       = Vec3 (Finite (25/2)) (Finite 0) (Finite 0)
   \<and> netForce (cell (block_left 0 1 unit_square_body) 0 1)
       = Vec3 (Finite (- (25/2))) (Finite 0) (Finite 0)"
    using spring_forces_equal_and_opposite [OF us(1,2) hyps(1-4)] us(3,4) hyps(5-8)
    by (simp add: Let_def springs rest us(10) vec3_ctor_simps)
  then show ?thesis
    using us(1-4) hyps springs by (intro conjI) simp_all
qed

text \<open>
  C8 as stated fails: not for every pair with distinct positions. In the soft body
  constructed with width and height \<open>2\<^sup>-\<^sup>9\<^sup>9\<close>, the cells \<open>(0, 0)\<close> and \<open>(0, 1)\<close> are at
  distinct positions, \<open>2\<^sup>-\<^sup>1\<^sup>0\<^sup>0\<close> from each other. The dot product of their displacement with
  itself, \<open>2\<^sup>-\<^sup>2\<^sup>0\<^sup>0\<close>, is zero as a float, its inverse square root is an infinity, and no
  component of the spring force on either of them from the other is a finite number: the two
  contributions have no magnitude to compare, and the blocks add them to the net forces.
\<close>

theorem close_neighbours_counterexample:
  "SoftBody_ctor (Finite (1 / 2 ^ 99)) (Finite (1 / 2 ^ 99)) 2 2 (Finite 25) (Finite (1/2))
     = Inr speck_body
   \<and> position (cell speck_body 0 0)
       = Vec3 (Finite (- (1 / 2 ^ 100))) (Finite (- (1 / 2 ^ 100))) (Finite 0)
   \<and> position (cell speck_body 0 1) = Vec3 (Finite 0) (Finite (- (1 / 2 ^ 100))) (Finite 0)
   \<and> position (cell speck_body 0 0) \<noteq> position (cell speck_body 0 1)
   \<and> dot (position (cell speck_body 0 1) - position (cell speck_body 0 0))
         (position (cell speck_body 0 1) - position (cell speck_body 0 0))
       = Finite (1 / 2 ^ 200)
   \<and> spring_force (coefficient speck_body) (restWidth speck_body)
        (position (cell speck_body 0 0)) (position (cell speck_body 0 1)) = Vec3 NaN NaN NaN
   \<and> spring_force (coefficient speck_body) (restWidth speck_body)
        (position (cell speck_body 0 1)) (position (cell speck_body 0 0)) = Vec3 NaN NaN NaN
   \<and> netForce (cell (block_right 0 0 speck_body) 0 0) = Vec3 NaN NaN NaN
   \<and> netForce (cell (block_left 0 1 speck_body) 0 1) = Vec3 NaN NaN NaN"
proof -
  have "SoftBody_ctor (Finite (1 / 2 ^ 99)) (Finite (1 / 2 ^ 99)) 2 2 (Finite 25) (Finite (1/2))
      = Inr speck_body"
    unfolding speck_body_ctor speck_body_eq by simp
  moreover have "netForce (cell (block_right 0 0 speck_body) 0 0) = Vec3 NaN NaN NaN"
    using block_netForce(4)[OF speck_facts(1,2)]
    by (simp add: speck_facts(6) speck_springs vec3_eq_iff)
  moreover have "netForce (cell (block_left 0 1 speck_body) 0 1) = Vec3 NaN NaN NaN"
    using block_netForce(3)[OF speck_facts(1,3)]
    by (simp add: speck_springs vec3_eq_iff)
  moreover have "position (cell speck_body 0 0)
       = Vec3 (Finite (- (1 / 2 ^ 100))) (Finite (- (1 / 2 ^ 100))) (Finite 0)"
    "position (cell speck_body 0 1) = Vec3 (Finite 0) (Finite (- (1 / 2 ^ 100))) (Finite 0)"
    "position (cell speck_body 0 0) \<noteq> position (cell speck_body 0 1)"
    "dot (position (cell speck_body 0 1) - position (cell speck_body 0 0))
         (position (cell speck_body 0 1) - position (cell speck_body 0 0))
       = Finite (1 / 2 ^ 200)"
    by (simp_all add: speck_cells rest_body_def dot_def)
  ultimately show ?thesis using speck_springs by (intro conjI)
qed

section \<open>Integration of one body\<close>

text \<open>
  C2, as the code has it. For a time step \<open>0 < dt \<le> 2\<^sup>2\<^sup>0\<close> and a body whose inverse mass,
  position, velocity and net force are moderate and whose net impulse is zero, with
  \<open>a = inverseMass * netForce\<close> the acceleration of the step, one call of
  \<open>IntegrateLinear\<close> gives the velocity \<open>velocity + a * dt\<close> and the position
  \<open>position + velocity * dt + 0.5 * a * dt\<^sup>2\<close>, where \<open>velocity\<close> is the velocity
  before the call, and every component of both is in the range of a float. Under these
  bounds no product or sum of the call leaves that range (the largest, \<open>0.5 * a * dt\<^sup>2\<close>,
  has a magnitude of at most \<open>2\<^sup>7\<^sup>9\<close>), so the program's result differs from these values
  by the rounding of its operations only.
\<close>

theorem IntegrateLinear_constant_acceleration:
  assumes "dt = Finite d" and "0 < d" and "d \<le> 2 ^ 20"
    and "tame_body rb" and "netImpulse rb = 0"
    and "a = scale (inverseMass rb) (netForce rb)"
  shows "velocity (IntegrateLinear dt rb) = velocity rb + scale_r a dt
       \<and> position (IntegrateLinear dt rb)
           = position rb + scale_r (velocity rb) dt
             + scale (Finite (1/2)) (scale_r a (Finite (d\<^sup>2)))
       \<and> in_range_vec (velocity (IntegrateLinear dt rb))
       \<and> in_range_vec (position (IntegrateLinear dt rb))"
proof -
  have dt: "moderate dt" using assms(1-3) by simp
  have sq: "powf_2 dt = Finite (d\<^sup>2)"
    unfolding powf_2_moderate[OF dt] by (simp add: assms(1) power2_eq_square)
  have "velocity (IntegrateLinear dt rb) = velocity rb + scale_r a dt"
    unfolding assms(6) using assms(5) by (rule IntegrateLinear_velocity_zero_impulse)
  moreover have "position (IntegrateLinear dt rb)
      = position rb + scale_r (velocity rb) dt
        + scale (Finite (1/2)) (scale_r a (Finite (d\<^sup>2)))"
    unfolding assms(6) sq[symmetric] by (rule IntegrateLinear_position_expanded)
  moreover have "in_range_vec (velocity (IntegrateLinear dt rb))"
    using dt assms(4) by (rule IntegrateLinear_in_range(1))
  moreover have "in_range_vec (position (IntegrateLinear dt rb))"
    using dt assms(4) by (rule IntegrateLinear_in_range(2))
  ultimately show ?thesis by (intro conjI)
qed

theorem IntegrateLinear_constant_acceleration_witness:
  "(0 :: real) < 2 \<and> (2 :: real) \<le> 2 ^ 20
   \<and> tame_body
       \<lparr>inverseMass = Finite 1, position = Vec3 (Finite 1) (Finite 0) (Finite 0),
        velocity = Vec3 (Finite 3) (Finite 0) (Finite 0), acceleration = 0,
        netForce = Vec3 (Finite 4) (Finite 0) (Finite 0), netImpulse = 0\<rparr>
   \<and> velocity (IntegrateLinear (Finite 2)
       \<lparr>inverseMass = Finite 1, position = Vec3 (Finite 1) (Finite 0) (Finite 0),
        velocity = Vec3 (Finite 3) (Finite 0) (Finite 0), acceleration = 0,
        netForce = Vec3 (Finite 4) (Finite 0) (Finite 0), netImpulse = 0\<rparr>)
     = Vec3 (Finite 11) (Finite 0) (Finite 0)
   \<and> position (IntegrateLinear (Finite 2)
       \<lparr>inverseMass = Finite 1, position = Vec3 (Finite 1) (Finite 0) (Finite 0),
        velocity = Vec3 (Finite 3) (Finite 0) (Finite 0), acceleration = 0,
        netForce = Vec3 (Finite 4) (Finite 0) (Finite 0), netImpulse = 0\<rparr>)
     = Vec3 (Finite 15) (Finite 0) (Finite 0)
   \<and> in_range_vec (position (IntegrateLinear (Finite 2)
       \<lparr>inverseMass = Finite 1, position = Vec3 (Finite 1) (Finite 0) (Finite 0),
        velocity = Vec3 (Finite 3) (Finite 0) (Finite 0), acceleration = 0,
        netForce = Vec3 (Finite 4) (Finite 0) (Finite 0), netImpulse = 0\<rparr>))"
proof -
  have tame: "tame_body
       \<lparr>inverseMass = Finite 1, position = Vec3 (Finite 1) (Finite 0) (Finite 0),
        velocity = Vec3 (Finite 3) (Finite 0) (Finite 0), acceleration = 0,
        netForce = Vec3 (Finite 4) (Finite 0) (Finite 0), netImpulse = 0\<rparr>"
    by (simp add: tame_body_def moderate_vec_def)
  show ?thesis
    using tame IntegrateLinear_constant_acceleration [of "Finite 2" 2
      "\<lparr>inverseMass = Finite 1, position = Vec3 (Finite 1) (Finite 0) (Finite 0),
        velocity = Vec3 (Finite 3) (Finite 0) (Finite 0), acceleration = 0,
        netForce = Vec3 (Finite 4) (Finite 0) (Finite 0), netImpulse = 0\<rparr>"
      "Vec3 (Finite 4) (Finite 0) (Finite 0)"]
    by (simp add: vec3_eq_iff)
qed

text \<open>
  C2 as stated fails: not for every \<open>dt > 0\<close>. For the body at rest at the origin, with
  zero net force and zero net impulse, and \<open>dt = 2\<^sup>7\<^sup>0\<close>, the acceleration is zero and
  \<open>position + velocity * dt + 0.5 * a * dt\<^sup>2\<close> is the origin; \<^verbatim>\<open>powf(dt, 2)\<close> is an
  infinity, its product with the zero of \<open>0.5 * a\<close> is not a number, and every component of
  the position after the call is not a number.
\<close>

theorem large_time_step_counterexample:
  "(0 :: real) < 2 ^ 70
   \<and> netImpulse (rest_body 0 0) = 0
   \<and> scale (inverseMass (rest_body 0 0)) (netForce (rest_body 0 0)) = 0
   \<and> position (rest_body 0 0) + scale_r (velocity (rest_body 0 0)) (Finite (2 ^ 70))
       + scale (Finite (1/2)) (scale_r 0 (Finite ((2 ^ 70)\<^sup>2)))
       = Vec3 (Finite 0) (Finite 0) (Finite 0)
   \<and> powf_2 (Finite (2 ^ 70)) = NaN
   \<and> position (IntegrateLinear (Finite (2 ^ 70)) (rest_body 0 0)) = Vec3 NaN NaN NaN"
  by (simp add: rest_body_def vec3_ctor_simps FLT_OVERFLOW_def)
section \<open>The vertices of the mesh\<close>

text \<open>
  C3. In the second pair of loops the position of the body at row \<open>i\<close>, column \<open>j\<close> is
  written to the vertex \<open>i * subdivisionsY + j\<close>, where \<open>subdivisionsY\<close> is the number of
  rows; the row-major index is \<open>i * subdivisionsX + j\<close>. On the grid of two rows of three
  bodies, at rest, one step leaves in the six vertices the positions of the cells
  \<open>(0,0)\<close>, \<open>(0,1)\<close>, \<open>(1,0)\<close>, \<open>(1,1)\<close>, \<open>(1,2)\<close> and the vertex's old position: vertex 2
  was written for cell \<open>(0,2)\<close> and again for cell \<open>(1,0)\<close>, vertex 5 never, and the
  vertices from 2 on do not hold the positions of the bodies in row-major order.
\<close>

theorem vertex_index_on_wide_grid:
  "SoftBody_ctor (Finite 3) (Finite 2) 3 2 (Finite 25) (Finite (1/2)) = Inr (body wide)
   \<and> state_ok wide
   \<and> subdivisionsY (body wide) = 2 \<and> subdivisionsX (body wide) = 3
   \<and> body_positions (body (Step physicsStep 0 wide))
       = [Vec3 (Finite (- (3/2))) (Finite (- 1)) (Finite 0),
          Vec3 (Finite (- (1/2))) (Finite (- 1)) (Finite 0),
          Vec3 (Finite (1/2)) (Finite (- 1)) (Finite 0),
          Vec3 (Finite (- (3/2))) (Finite 0) (Finite 0),
          Vec3 (Finite (- (1/2))) (Finite 0) (Finite 0),
          Vec3 (Finite (1/2)) (Finite 0) (Finite 0)]
   \<and> mesh_positions (lattice (Step physicsStep 0 wide))
       = [Vec3 (Finite (- (3/2))) (Finite (- 1)) (Finite 0),
          Vec3 (Finite (- (1/2))) (Finite (- 1)) (Finite 0),
          Vec3 (Finite (- (3/2))) (Finite 0) (Finite 0),
          Vec3 (Finite (- (1/2))) (Finite 0) (Finite 0),
          Vec3 (Finite (1/2)) (Finite 0) (Finite 0),
          Vec3 (Finite 0) (Finite 0) (Finite 0)]"
proof -
  have "Step physicsStep 0 wide = integrate_all physicsStep wide"
    by (simp add: Step_def wide_def wide_apply_forces)
  moreover have "SoftBody_ctor (Finite 3) (Finite 2) 3 2 (Finite 25) (Finite (1/2))
      = Inr (body wide)"
    by (simp add: wide_def wide_body_eq wide_body_ctor)
  ultimately show ?thesis
    by (simp add: wide_ok wide_integrate body_positions_def mesh_positions_def
        vertex_position_def blank_vertex_def)
       (simp add: wide_def wide_body_eq rest_body_def)
qed

section \<open>Dampening\<close>

text \<open>
  C4, as the code has it. For a cell of the grid with zero net force before the step, whose
  velocity and the dampening are numbers, and all of whose springs to existing neighbours
  give the zero force: the net force accumulated in a step with zero external force is the
  velocity scaled by \<open>- (n * dampening)\<close>, where \<open>n\<close> is the number of existing
  neighbours. The dampening term is added once in each of the four blocks.
\<close>

theorem damping_once_per_neighbour:
  assumes "grid_ok sb" and "in_grid sb i j"
    and "netForce (cell sb i j) = 0"
    and "velocity (cell sb i j) = Vec3 (Finite a) (Finite b) (Finite c)"
    and "dampening sb = Finite d"
    and "0 < i \<Longrightarrow> spring_force (coefficient sb) (restHeight sb)
           (position (cell sb i j)) (position (cell sb (i - 1) j)) = 0"
    and "i < subdivisionsY sb - 1 \<Longrightarrow> spring_force (coefficient sb) (restHeight sb)
           (position (cell sb i j)) (position (cell sb (i + 1) j)) = 0"
    and "0 < j \<Longrightarrow> spring_force (coefficient sb) (restWidth sb)
           (position (cell sb i j)) (position (cell sb i (j - 1))) = 0"
    and "j < subdivisionsX sb - 1 \<Longrightarrow> spring_force (coefficient sb) (restWidth sb)
           (position (cell sb i j)) (position (cell sb i (j + 1))) = 0"
  shows "netForce (cell (apply_forces 0 sb) i j)
     = scale (Finite (- (real (neighbour_count sb i j) * d))) (velocity (cell sb i j))"
proof -
  have "netForce (cell (apply_forces 0 sb) i j) = net_force 0 sb i j"
    by (simp add: apply_forces_grid(3)[OF assms(1,2)])
  also have "\<dots> = scale (Finite (- (real (neighbour_count sb i j) * d))) (velocity (cell sb i j))"
  proof -
    have "0 \<le> i" using assms(2) by (simp add: in_grid_def)
    then show ?thesis
      unfolding net_force_def net_force_from_def Let_def neighbour_count_def
      using assms(3-9)
      by (cases "i = 0"; cases "i < subdivisionsY sb - 1"; cases "0 < j";
          cases "j < subdivisionsX sb - 1")
         (simp_all add: vec3_ctor_simps)
  qed
  finally show ?thesis .
qed

theorem damping_once_per_neighbour_witness:
  "grid_ok moving_body \<and> in_grid moving_body 0 0
   \<and> netForce (cell moving_body 0 0) = 0
   \<and> velocity (cell moving_body 0 0) = Vec3 (Finite 1) (Finite 0) (Finite 0)
   \<and> dampening moving_body = Finite (1/2)
   \<and> spring_force (coefficient moving_body) (restHeight moving_body)
        (position (cell moving_body 0 0)) (position (cell moving_body 1 0)) = 0
   \<and> spring_force (coefficient moving_body) (restWidth moving_body)
        (position (cell moving_body 0 0)) (position (cell moving_body 0 1)) = 0
   \<and> neighbour_count moving_body 0 0 = 2
   \<and> netForce (cell (apply_forces 0 moving_body) 0 0)
       = scale (Finite (- (real (neighbour_count moving_body 0 0) * (1/2))))
           (velocity (cell moving_body 0 0))"
proof -
  have rest: "netForce (cell moving_body 0 0) = 0"
    by (simp add: moving_cells rest_body_def vec3_ctor_simps)
  have vel: "velocity (cell moving_body 0 0) = Vec3 (Finite 1) (Finite 0) (Finite 0)"
    by (simp add: moving_cells)
  have count: "neighbour_count moving_body 0 0 = 2"
    by (simp add: neighbour_count_def moving_fields)
  have "netForce (cell (apply_forces 0 moving_body) 0 0)
      = scale (Finite (- (real (neighbour_count moving_body 0 0) * (1/2))))
          (velocity (cell moving_body 0 0))"
    using moving_ok rest vel moving_fields(6)
    by (rule damping_once_per_neighbour) (simp_all add: moving_springs)
  then show ?thesis
    using moving_ok rest vel moving_fields(6) moving_springs count by blast
qed

text \<open>
  C4 as stated fails. In the scenario with the body at \<open>(0, 0)\<close> moving with velocity
  \<open>(1, 0, 0)\<close>, both springs of that body are at rest length and the net force accumulated
  is \<open>(-1, 0, 0)\<close>, twice the velocity scaled by \<open>- dampening\<close>; in the grid of one
  moving body it is zero.
\<close>

theorem damping_counterexample:
  "velocity (cell moving_body 0 0) = Vec3 (Finite 1) (Finite 0) (Finite 0)
   \<and> spring_force (coefficient moving_body) (restHeight moving_body)
        (position (cell moving_body 0 0)) (position (cell moving_body 1 0)) = 0
   \<and> spring_force (coefficient moving_body) (restWidth moving_body)
        (position (cell moving_body 0 0)) (position (cell moving_body 0 1)) = 0
   \<and> netForce (cell (apply_forces 0 moving_body) 0 0) = Vec3 (Finite (- 1)) (Finite 0) (Finite 0)
   \<and> scale (- dampening moving_body) (velocity (cell moving_body 0 0))
       = Vec3 (Finite (- (1/2))) (Finite 0) (Finite 0)
   \<and> velocity (cell lone_body 0 0) = Vec3 (Finite 1) (Finite 0) (Finite 0)
   \<and> netForce (cell (apply_forces 0 lone_body) 0 0) = Vec3 (Finite 0) (Finite 0) (Finite 0)"
proof -
  have "netForce (cell (apply_forces 0 moving_body) 0 0) = net_force 0 moving_body 0 0"
    by (simp add: apply_forces_grid(3)[OF moving_ok])
  also have "\<dots> = Vec3 (Finite (- 1)) (Finite 0) (Finite 0)"
    by (simp add: net_force_def net_force_from_def moving_fields moving_cells rest_body_def
        vec3_eval)
  finally have moving: "netForce (cell (apply_forces 0 moving_body) 0 0)
      = Vec3 (Finite (- 1)) (Finite 0) (Finite 0)" .
  have lone_ok: "grid_ok lone_body" "in_grid lone_body 0 0"
    by (simp_all add: grid_ok_def in_grid_def lone_body_def)
  have lone_cell: "cell lone_body 0 0
      = (rest_body 0 0)\<lparr>velocity := Vec3 (Finite 1) (Finite 0) (Finite 0)\<rparr>"
    by (simp add: cell_def lone_body_def)
  have "netForce (cell (apply_forces 0 lone_body) 0 0) = net_force 0 lone_body 0 0"
    by (simp add: apply_forces_grid(3)[OF lone_ok])
  also have "\<dots> = Vec3 (Finite 0) (Finite 0) (Finite 0)"
    by (simp add: net_force_def net_force_from_def lone_cell rest_body_def vec3_eval)
       (simp add: lone_body_def)
  finally have lone: "netForce (cell (apply_forces 0 lone_body) 0 0)
      = Vec3 (Finite 0) (Finite 0) (Finite 0)" .
  show ?thesis
    by (simp add: moving lone moving_springs)
       (simp add: moving_cells lone_cell moving_fields rest_body_def vec3_eval)
qed

section \<open>Coincident neighbours\<close>



section \<open>The scenario at rest\<close>

text \<open>
  C9, as the code has it. The soft body constructed with width and height 1, 2 by 2
  subdivisions, coefficient 25 and damping 0.5 has its four masses at rest, each adjacent pair
  exactly \<open>restWidth\<close> or \<open>restHeight\<close> (both 0.5) apart: one step with \<open>dt = 0.012\<close> and
  zero external force accumulates a zero net force on every cell and leaves the soft body as
  it was, so every position and velocity is unchanged.
\<close>

theorem rest_scenario_unchanged:
  "SoftBody_ctor (Finite 1) (Finite 1) 2 2 (Finite 25) (Finite (1/2)) = Inr (body scenario)
   \<and> netForce (cell (apply_forces 0 (body scenario)) 0 0) = 0
   \<and> netForce (cell (apply_forces 0 (body scenario)) 0 1) = 0
   \<and> netForce (cell (apply_forces 0 (body scenario)) 1 0) = 0
   \<and> netForce (cell (apply_forces 0 (body scenario)) 1 1) = 0
   \<and> body (Step physicsStep 0 scenario) = body scenario
   \<and> vlength (position (cell (body scenario) 0 1) - position (cell (body scenario) 0 0))
       = restWidth (body scenario)
   \<and> vlength (position (cell (body scenario) 1 1) - position (cell (body scenario) 1 0))
       = restWidth (body scenario)
   \<and> vlength (position (cell (body scenario) 1 0) - position (cell (body scenario) 0 0))
       = restHeight (body scenario)
   \<and> vlength (position (cell (body scenario) 1 1) - position (cell (body scenario) 0 1))
       = restHeight (body scenario)"
proof -
  have ok: "grid_ok (body scenario)" using scenario_ok by (simp add: state_ok_def)
  have b: "body scenario = scenario_body" by (simp add: scenario_def)
  have "SoftBody_ctor (Finite 1) (Finite 1) 2 2 (Finite 25) (Finite (1/2)) = Inr (body scenario)"
    by (simp add: b scenario_body_eq scenario_body_ctor)
  moreover have "netForce (cell (apply_forces 0 (body scenario)) 0 0) = 0"
    using apply_forces_grid(3)[OF ok scenario_in_grid(1), of 0] by (simp add: b scenario_net_force)
  moreover have "netForce (cell (apply_forces 0 (body scenario)) 0 1) = 0"
    using apply_forces_grid(3)[OF ok scenario_in_grid(2), of 0] by (simp add: b scenario_net_force)
  moreover have "netForce (cell (apply_forces 0 (body scenario)) 1 0) = 0"
    using apply_forces_grid(3)[OF ok scenario_in_grid(3), of 0] by (simp add: b scenario_net_force)
  moreover have "netForce (cell (apply_forces 0 (body scenario)) 1 1) = 0"
    using apply_forces_grid(3)[OF ok scenario_in_grid(4), of 0] by (simp add: b scenario_net_force)
  moreover have "body (Step physicsStep 0 scenario) = body scenario"
    by (simp add: scenario_step_body b)
  moreover have
    "vlength (position (cell (body scenario) 0 1) - position (cell (body scenario) 0 0))
       = restWidth (body scenario)"
    "vlength (position (cell (body scenario) 1 1) - position (cell (body scenario) 1 0))
       = restWidth (body scenario)"
    "vlength (position (cell (body scenario) 1 0) - position (cell (body scenario) 0 0))
       = restHeight (body scenario)"
    "vlength (position (cell (body scenario) 1 1) - position (cell (body scenario) 0 1))
       = restHeight (body scenario)"
    by (simp_all add: b scenario_cells scenario_fields rest_body_def vec3_eval)
  ultimately show ?thesis by (intro conjI)
qed

text \<open>
  C9 as stated fails: the constructed masses do not form a unit square. They are at
  \<open>(-0.5, -0.5)\<close>, \<open>(0, -0.5)\<close>, \<open>(-0.5, 0)\<close> and \<open>(0, 0)\<close>, a square of side 0.5; and with
  the same parameters and the masses at the corners of a unit square, the net force
  accumulated on the body at \<open>(0, 0)\<close> is \<open>(12.5, 12.5, 0)\<close>, not zero.
\<close>

theorem unit_square_counterexample:
  "SoftBody_ctor (Finite 1) (Finite 1) 2 2 (Finite 25) (Finite (1/2)) = Inr scenario_body
   \<and> position (cell scenario_body 0 0) = Vec3 (Finite (- (1/2))) (Finite (- (1/2))) (Finite 0)
   \<and> position (cell scenario_body 0 1) = Vec3 (Finite 0) (Finite (- (1/2))) (Finite 0)
   \<and> position (cell scenario_body 1 0) = Vec3 (Finite (- (1/2))) (Finite 0) (Finite 0)
   \<and> position (cell scenario_body 1 1) = Vec3 (Finite 0) (Finite 0) (Finite 0)
   \<and> vlength (position (cell scenario_body 0 1) - position (cell scenario_body 0 0)) = Finite (1/2)
   \<and> vlength (position (cell scenario_body 1 0) - position (cell scenario_body 0 0)) = Finite (1/2)
   \<and> netForce (cell (apply_forces 0 unit_square_body) 0 0)
       = Vec3 (Finite (25/2)) (Finite (25/2)) (Finite 0)"
proof -
  have us: "grid_ok unit_square_body" "in_grid unit_square_body 0 0"
    "subdivisionsX unit_square_body = 2" "subdivisionsY unit_square_body = 2"
    "restHeight unit_square_body = Finite (1/2)" "restWidth unit_square_body = Finite (1/2)"
    "coefficient unit_square_body = Finite 25" "dampening unit_square_body = Finite (1/2)"
    "cell unit_square_body 0 0 = rest_body 0 0" "cell unit_square_body 0 1 = rest_body 1 0"
    "cell unit_square_body 1 0 = rest_body 0 1"
    by (simp_all add: unit_square_body_def scenario_body_eq grid_ok_def in_grid_def cell_def)
  have "net_force 0 unit_square_body 0 0 = Vec3 (Finite (25/2)) (Finite (25/2)) (Finite 0)"
    by (simp add: net_force_def net_force_from_def us rest_body_def vec3_eval)
  then have "netForce (cell (apply_forces 0 unit_square_body) 0 0)
      = Vec3 (Finite (25/2)) (Finite (25/2)) (Finite 0)"
    by (simp add: apply_forces_grid(3)[OF us(1,2)])
  moreover have "SoftBody_ctor (Finite 1) (Finite 1) 2 2 (Finite 25) (Finite (1/2)) = Inr scenario_body"
    by (simp add: scenario_body_eq scenario_body_ctor)
  ultimately show ?thesis
    by (simp add: scenario_cells rest_body_def vec3_eval)
qed

section \<open>Motion in the plane\<close>

text \<open>
  C10, as the code has it. From a state in which the position, velocity, net force and net
  impulse of every body have a zero \<open>z\<close> component, with a moderate time step and external
  forces that are moderate and have a zero \<open>z\<close> component, after any number of steps each
  of which starts from a tame soft body (its parameters and the numbers of its bodies are
  moderate, and any two bodies that a spring connects are apart), the position and the
  velocity of every body have a zero \<open>z\<close> component. In a step from a tame soft body no
  number that the program forms leaves the range of a float, and a product or a sum of zeros
  is a zero whatever the rounding.
\<close>

theorem planar_motion:
  assumes "state_ok g" and "planar_grid (body g)" and "moderate dt"
    and "list_all planar_force externalForces" and "tame_run dt externalForces g"
    and "in_grid (body g) i j"
  shows "vz (position (cell (body (Steps dt externalForces g)) i j)) = Finite 0
       \<and> vz (velocity (cell (body (Steps dt externalForces g)) i j)) = Finite 0"
proof -
  note inv = Steps_planar[OF assms(1-5)]
  have ok: "grid_ok (body (Steps dt externalForces g))" using inv by (simp add: state_ok_def)
  have "in_grid (body (Steps dt externalForces g)) i j"
    using assms(6) in_grid_frame[of "body (Steps dt externalForces g)" "body g"] inv by simp
  then have "planar_body (cell (body (Steps dt externalForces g)) i j)"
    using inv planar_cells[OF ok] by simp
  then show ?thesis by (simp add: planar_body_def)
qed

theorem planar_motion_witness:
  "state_ok scenario \<and> planar_grid (body scenario) \<and> moderate physicsStep
   \<and> list_all planar_force [pull, 0]
   \<and> tame_run physicsStep [pull, 0] scenario
   \<and> in_grid (body scenario) 0 0
   \<and> position (cell (body (Step physicsStep pull scenario)) 1 0)
       - position (cell (body (Step physicsStep pull scenario)) 0 0)
       = Vec3 (Finite (- (41505174887401 / 288230376151711744))) (Finite (1/2)) (Finite 0)
   \<and> vz (position (cell (body (Steps physicsStep [pull, 0] scenario)) 0 0)) = Finite 0
   \<and> vz (velocity (cell (body (Steps physicsStep [pull, 0] scenario)) 0 0)) = Finite 0"
proof -
  have dt: "moderate physicsStep" by (simp add: physicsStep_def)
  have forces: "list_all planar_force [pull, 0]" by (simp add: pull_planar)
  have run: "tame_run physicsStep [pull, 0] scenario"
    using scenario_tame dragged_tame by (simp add: scenario_def dragged_def)
  have stretched: "position (cell (body (Step physicsStep pull scenario)) 1 0)
       - position (cell (body (Step physicsStep pull scenario)) 0 0)
       = Vec3 (Finite (- (41505174887401 / 288230376151711744))) (Finite (1/2)) (Finite 0)"
    using dragged_cells(1,3) by (simp add: dragged_def rest_body_def vec3_ctor_simps)
  show ?thesis
    using planar_motion [OF scenario_ok scenario_planar dt forces run scenario_in_grid(1)]
      scenario_ok scenario_planar dt forces run scenario_in_grid(1) stretched
    by blast
qed

text \<open>
  C10 as stated fails, from the state that the constructor establishes, with a zero
  external force and no two neighbours at the same position. In the scenario one step with
  \<open>dt = 2\<^sup>7\<^sup>0\<close> leaves a position whose \<open>z\<close> component is not a number: \<^verbatim>\<open>powf(dt, 2)\<close>
  is an infinity, and its product with the zero acceleration is not a number. In the soft
  body constructed with width and height \<open>2\<^sup>-\<^sup>9\<^sup>9\<close>, whose neighbours are \<open>2\<^sup>-\<^sup>1\<^sup>0\<^sup>0\<close> from
  each other, one step with \<open>dt = 0.012\<close> does the same: the dot product of a displacement
  with itself is zero as a float, its inverse square root is an infinity, and the \<open>z\<close>
  component of the direction is the product of zero and that infinity.
\<close>

theorem planar_motion_counterexample:
  "SoftBody_ctor (Finite 1) (Finite 1) 2 2 (Finite 25) (Finite (1/2)) = Inr (body scenario)
   \<and> planar_grid (body scenario)
   \<and> position (cell (body scenario) 0 0) \<noteq> position (cell (body scenario) 0 1)
   \<and> position (cell (body scenario) 0 0) \<noteq> position (cell (body scenario) 1 0)
   \<and> position (cell (body scenario) 1 1) \<noteq> position (cell (body scenario) 0 1)
   \<and> position (cell (body scenario) 1 1) \<noteq> position (cell (body scenario) 1 0)
   \<and> vz (position (cell (body (Step (Finite (2 ^ 70)) 0 scenario)) 0 0)) = NaN
   \<and> SoftBody_ctor (Finite (1 / 2 ^ 99)) (Finite (1 / 2 ^ 99)) 2 2 (Finite 25) (Finite (1/2))
       = Inr (body speck)
   \<and> planar_grid (body speck)
   \<and> position (cell (body speck) 0 0) \<noteq> position (cell (body speck) 0 1)
   \<and> position (cell (body speck) 0 0) \<noteq> position (cell (body speck) 1 0)
   \<and> position (cell (body speck) 1 1) \<noteq> position (cell (body speck) 0 1)
   \<and> position (cell (body speck) 1 1) \<noteq> position (cell (body speck) 1 0)
   \<and> vz (position (cell (body (Step physicsStep 0 speck)) 0 0)) = NaN"
proof -
  have ok: "grid_ok (body scenario)" using scenario_ok by (simp add: state_ok_def)
  have b: "body scenario = scenario_body" by (simp add: scenario_def)
  have "SoftBody_ctor (Finite 1) (Finite 1) 2 2 (Finite 25) (Finite (1/2)) = Inr (body scenario)"
    by (simp add: b scenario_body_eq scenario_body_ctor)
  moreover have "vz (position (cell (body (Step (Finite (2 ^ 70)) 0 scenario)) 0 0)) = NaN"
    using Step_grid(3)[OF ok scenario_in_grid(1), of "Finite (2 ^ 70)" 0]
    by (simp add: FLT_OVERFLOW_def)
  moreover have "position (cell (body scenario) 0 0) \<noteq> position (cell (body scenario) 0 1)"
    "position (cell (body scenario) 0 0) \<noteq> position (cell (body scenario) 1 0)"
    "position (cell (body scenario) 1 1) \<noteq> position (cell (body scenario) 0 1)"
    "position (cell (body scenario) 1 1) \<noteq> position (cell (body scenario) 1 0)"
    by (simp_all add: b scenario_cells rest_body_def)
  moreover have "SoftBody_ctor (Finite (1 / 2 ^ 99)) (Finite (1 / 2 ^ 99)) 2 2 (Finite 25)
      (Finite (1/2)) = Inr (body speck)"
    unfolding speck_body_ctor speck_ok(2) speck_body_eq by simp
  moreover have "planar_grid (body speck)"
    by (simp add: planar_grid_def speck_ok(2) speck_body_eq rest_body_tame)
  moreover have "position (cell (body speck) 0 0) \<noteq> position (cell (body speck) 0 1)"
    "position (cell (body speck) 0 0) \<noteq> position (cell (body speck) 1 0)"
    "position (cell (body speck) 1 1) \<noteq> position (cell (body speck) 0 1)"
    "position (cell (body speck) 1 1) \<noteq> position (cell (body speck) 1 0)"
    by (simp_all add: speck_ok(2) speck_cells rest_body_def)
  moreover have "vz (position (cell (body (Step physicsStep 0 speck)) 0 0)) = NaN"
    using Step_grid(3)[OF speck_facts(1)[folded speck_ok(2)] speck_facts(2)[folded speck_ok(2)],
        of physicsStep 0]
    by (simp add: speck_ok(2) forced_def speck_net_force)
  ultimately show ?thesis using scenario_planar by (intro conjI)
qed

end
